theory Spec2Isabelle
  imports Main "HOL-Library.AList"
begin

section \<open>JavaScript strings and values\<close>

text \<open>
  The gateway of \<^verbatim>\<open>frontend/src/lib/api.ts\<close> works on JavaScript strings. A string is
  modelled as \<^typ>\<open>string\<close>; each \<^typ>\<open>char\<close> stands for one code unit in the range 0..255, so
  \<open>length\<close> is the \<^verbatim>\<open>.length\<close> of the source for such strings. The white space of
  \<^verbatim>\<open>\s\<close> and of \<^verbatim>\<open>String.prototype.trim\<close> (WhiteSpace and LineTerminator of ECMAScript) is,
  inside that range: TAB, LF, VT, FF, CR, SPACE and NO-BREAK SPACE.
\<close>

definition isWhiteSpace :: "char \<Rightarrow> bool" where
  "isWhiteSpace c = (of_char c \<in> {9, 10, 11, 12, 13, 32, 160 :: nat})"

definition trim :: "string \<Rightarrow> string" where
  "trim s = rev (dropWhile isWhiteSpace (rev (dropWhile isWhiteSpace s)))"

text \<open>A string is truthy when it is not empty; \<^verbatim>\<open>undefined\<close> is falsy.\<close>

fun truthy :: "string option \<Rightarrow> bool" where
  "truthy None = False"
| "truthy (Some s) = (s \<noteq> [])"

definition digit :: "nat \<Rightarrow> char" where
  "digit d = ''0123456789'' ! d"

fun show_nat :: "nat \<Rightarrow> string" where
  "show_nat n = (if n < 10 then [digit n] else show_nat (n div 10) @ [digit (n mod 10)])"

declare show_nat.simps [simp del]

datatype jsval = JUndefined | JNum int | JStr string | JObj "(string \<times> jsval) list"

fun opt_str :: "string option \<Rightarrow> jsval" where
  "opt_str None = JUndefined"
| "opt_str (Some s) = JStr s"

subsection \<open>The regular expression of \<^verbatim>\<open>validateEmail\<close>\<close>

text \<open>
  \<^verbatim>\<open>/^[^\s@]+@[^\s@]+\.[^\s@]+$/\<close> is a sequence of literal characters and of
  one-or-more repetitions of a character class, anchored at both ends (no flag is set, so
  \<^verbatim>\<open>$\<close> is the end of the input). \<open>matches\<close> is the backtracking matcher for such
  sequences.
\<close>

datatype item = Lit char | Many1 "char \<Rightarrow> bool"

fun matches :: "item list \<Rightarrow> string \<Rightarrow> bool" where
  "matches [] s = (s = [])"
| "matches (Lit c # items) [] = False"
| "matches (Lit c # items) (x # xs) = (x = c \<and> matches items xs)"
| "matches (Many1 p # items) [] = False"
| "matches (Many1 p # items) (x # xs) =
     (p x \<and> (matches items xs \<or> matches (Many1 p # items) xs))"

definition notSpaceAt :: "char \<Rightarrow> bool" where
  "notSpaceAt c = (\<not> isWhiteSpace c \<and> c \<noteq> CHR ''@'')"

definition emailRegex :: "item list" where
  "emailRegex = [Many1 notSpaceAt, Lit CHR ''@'', Many1 notSpaceAt, Lit CHR ''.'', Many1 notSpaceAt]"

section \<open>Errors\<close>

text \<open>
  Every failure that leaves the gateway is a JavaScript \<^verbatim>\<open>Error\<close> carrying a message;
  the source defines no other error class. What is thrown inside a \<^verbatim>\<open>try\<close> block is
  either an axios error (a response with a status outside 2xx, whose body may hold the
  strings \<^verbatim>\<open>detail\<close> and \<^verbatim>\<open>message\<close>; or a request that got no response, which includes
  the 30 second timeout), an axios cancellation, or an \<^verbatim>\<open>Error\<close> thrown by the gateway itself.
\<close>

datatype js_error = Error string

datatype thrown =
    AxiosResponse nat "string option" "string option"
  | AxiosNoResponse
  | AxiosCancel
  | Plain string

fun handleError :: "thrown \<Rightarrow> js_error" where
  "handleError (AxiosResponse status detail message) =
     Error (if truthy detail then the detail
            else if truthy message then the message
            else ''Request failed with status '' @ show_nat status)"
| "handleError AxiosNoResponse = Error ''No response from server. Please check your connection.''"
| "handleError AxiosCancel = Error ''Request was cancelled''"
| "handleError (Plain message) =
     Error (if message \<noteq> [] then message else ''An unexpected error occurred'')"

section \<open>Requests, replies and the state of the client\<close>

datatype http_method = GET | POST | PUT | DELETE

datatype body = NoBody | Json jsval | FormData "(string \<times> string) list"

record request =
  meth :: http_method
  url :: string
  params :: "(string \<times> jsval) list"
  body :: body
  contentType :: string
  authorization :: "string option"
  cancelToken :: "nat option"

text \<open>
  What the remote service answers to a request: a 2xx response with its data, a response
  with another status and the \<^verbatim>\<open>detail\<close> and \<^verbatim>\<open>message\<close> fields of its body, or nothing.
\<close>

datatype 'a reply = Success 'a | Failure nat "string option" "string option" | NoResponse

text \<open>
  The interfaces of \<^verbatim>\<open>types/index.ts\<close> that the operations below read. A field whose name
  is taken (\<^verbatim>\<open>id\<close>, \<^verbatim>\<open>notes\<close>) or is shared by two interfaces carries a prefix.
\<close>

datatype UserType = PATIENT | RESEARCHER

record User =
  user_ident :: int
  user_email :: string
  user_type :: UserType
  is_active :: bool
  user_created_at :: string

record AuthResponse =
  access_token :: string
  token_type :: string
  user :: User

record FavoriteCreate =
  favorite_type :: string
  favorite_id :: string
  fav_notes :: "string option"

text \<open>\<^verbatim>\<open>Favorite\<close> has the fields of \<^verbatim>\<open>FavoriteCreate\<close> and three more.\<close>

record Favorite = FavoriteCreate +
  fav_ident :: int
  user_id :: int
  created_at :: string

text \<open>How a cancellable call that has left the gateway ended.\<close>

datatype outcome = Resolved | Rejected js_error

text \<open>
  The state the gateway reads and writes: the browser (\<open>hasWindow\<close> is
  \<^verbatim>\<open>typeof window !== 'undefined'\<close>, \<open>authToken\<close> the slot \<^verbatim>\<open>'authToken'\<close> of localStorage,
  \<open>href\<close> the location), the \<^verbatim>\<open>cancelTokens\<close> map of the client (in insertion order), the
  identity of the next \<^verbatim>\<open>CancelTokenSource\<close>, the sources on which \<^verbatim>\<open>cancel\<close> was called,
  the cancellable calls suspended at their \<^verbatim>\<open>await\<close> (source and \<^verbatim>\<open>cancelKey\<close>), the history
  of the requests handed to the transport and of the cancellable calls that ended, and the
  \<^verbatim>\<open>user\<close> of the auth store.
\<close>

record world =
  hasWindow :: bool
  authToken :: "string option"
  href :: string
  cancelTokens :: "(string \<times> nat) list"
  nextSource :: nat
  cancelledSources :: "nat set"
  pending :: "(nat \<times> string) list"
  sent :: "request list"
  settled :: "(nat \<times> outcome) list"
  authUser :: "User option"

text \<open>The state after \<^verbatim>\<open>new APIClient()\<close> in a browser that holds no token.\<close>

definition init :: world where
  "init = \<lparr>hasWindow = True, authToken = None, href = ''/'', cancelTokens = [], nextSource = 0,
            cancelledSources = {}, pending = [], sent = [], settled = [], authUser = None\<rparr>"

subsection \<open>TokenManager\<close>

definition setToken :: "string \<Rightarrow> world \<Rightarrow> world" where
  "setToken token w = (if hasWindow w then w\<lparr>authToken := Some token\<rparr> else w)"

definition getToken :: "world \<Rightarrow> string option" where
  "getToken w = (if hasWindow w then authToken w else None)"

definition removeToken :: "world \<Rightarrow> world" where
  "removeToken w = (if hasWindow w then w\<lparr>authToken := None\<rparr> else w)"

subsection \<open>The axios client and its interceptors\<close>

text \<open>
  The request interceptor of \<^verbatim>\<open>setupInterceptors\<close>. The interceptors that are added in
  development write to the console and pass the request, the response or the error on
  unchanged; they are left out.
\<close>

definition requestInterceptor :: "request \<Rightarrow> world \<Rightarrow> request" where
  "requestInterceptor config w =
     (if truthy (getToken w) then config\<lparr>authorization := Some (''Bearer '' @ the (getToken w))\<rparr>
      else config)"

text \<open>The error branch of the response interceptor; the error is rejected again afterwards.\<close>

fun responseInterceptor :: "thrown \<Rightarrow> world \<Rightarrow> world" where
  "responseInterceptor (AxiosResponse status detail message) w =
     (if status = 401
      then (let w1 = removeToken w in if hasWindow w1 then w1\<lparr>href := ''/login''\<rparr> else w1)
      else w)"
| "responseInterceptor e w = w"

text \<open>
  A call of \<^verbatim>\<open>this.client.get/post/put/delete\<close> up to its \<^verbatim>\<open>await\<close> (\<open>client_send\<close>), and
  from the arrival of the reply on (\<open>client_settle\<close>). \<open>client_request\<close> is a call whose
  reply \<open>srv\<close> gives at once.
\<close>

definition client_send :: "request \<Rightarrow> world \<Rightarrow> request \<times> world" where
  "client_send config w =
     (let req = requestInterceptor config w in (req, w\<lparr>sent := sent w @ [req]\<rparr>))"

fun client_settle :: "'a reply \<Rightarrow> world \<Rightarrow> (thrown + 'a) \<times> world" where
  "client_settle (Success d) w = (Inr d, w)"
| "client_settle (Failure status detail message) w =
     (Inl (AxiosResponse status detail message),
      responseInterceptor (AxiosResponse status detail message) w)"
| "client_settle NoResponse w = (Inl AxiosNoResponse, responseInterceptor AxiosNoResponse w)"

definition client_request :: "(request \<Rightarrow> 'a reply) \<Rightarrow> request \<Rightarrow> world \<Rightarrow> (thrown + 'a) \<times> world" where
  "client_request srv config w = (let (req, w1) = client_send config w in client_settle (srv req) w1)"

definition mkConfig :: "http_method \<Rightarrow> string \<Rightarrow> (string \<times> jsval) list \<Rightarrow> body \<Rightarrow> request" where
  "mkConfig m u ps b =
     \<lparr>meth = m, url = u, params = ps, body = b, contentType = ''application/json'',
      authorization = None, cancelToken = None\<rparr>"

text \<open>\<^verbatim>\<open>catch (error) { this.handleError(error); }\<close>: every failure leaves as an \<^verbatim>\<open>Error\<close>.\<close>

fun catch :: "(thrown + 'a) \<times> world \<Rightarrow> (js_error + 'a) \<times> world" where
  "catch (Inl e, w) = (Inl (handleError e), w)"
| "catch (Inr d, w) = (Inr d, w)"

section \<open>Operations of the gateway\<close>

text \<open>
  Each operation takes the remote service as a function \<open>srv\<close> from the request that
  reaches it to its reply, and the state; it returns its value, or the \<^verbatim>\<open>Error\<close> it
  throws, and the state afterwards. A local check that fails throws inside the \<^verbatim>\<open>try\<close>
  block, so its \<^verbatim>\<open>Error\<close> passes through \<^verbatim>\<open>handleError\<close> like any other.
\<close>

definition validateEmail :: "string \<Rightarrow> bool" where
  "validateEmail email = matches emailRegex email"

definition validatePassword :: "string \<Rightarrow> thrown + unit" where
  "validatePassword password =
     (if length password < 8 then Inl (Plain ''Password must be at least 8 characters long'')
      else Inr ())"

definition register ::
  "(request \<Rightarrow> AuthResponse reply) \<Rightarrow> string \<Rightarrow> string \<Rightarrow> string \<Rightarrow> world
     \<Rightarrow> (js_error + AuthResponse) \<times> world" where
  "register srv email password userType w =
     (if \<not> validateEmail email then catch (Inl (Plain ''Invalid email format''), w)
      else case validatePassword password of
        Inl e \<Rightarrow> catch (Inl e, w)
      | Inr u \<Rightarrow>
          (case client_request srv
                  (mkConfig POST ''/api/auth/register'' []
                     (Json (JObj [(''email'', JStr email), (''password'', JStr password),
                                  (''user_type'', JStr userType)]))) w of
             (Inl e, w1) \<Rightarrow> catch (Inl e, w1)
           | (Inr d, w1) \<Rightarrow> catch (Inr d, setToken (access_token d) w1)))"

definition loginConfig :: "string \<Rightarrow> string \<Rightarrow> request" where
  "loginConfig email password =
     (mkConfig POST ''/api/auth/login'' []
        (FormData [(''username'', email), (''password'', password)]))
     \<lparr>contentType := ''multipart/form-data''\<rparr>"

definition login ::
  "(request \<Rightarrow> AuthResponse reply) \<Rightarrow> string \<Rightarrow> string \<Rightarrow> world
     \<Rightarrow> (js_error + AuthResponse) \<times> world" where
  "login srv email password w =
     (if \<not> validateEmail email then catch (Inl (Plain ''Invalid email format''), w)
      else case client_request srv (loginConfig email password) w of
             (Inl e, w1) \<Rightarrow> catch (Inl e, w1)
           | (Inr d, w1) \<Rightarrow> catch (Inr d, setToken (access_token d) w1))"

text \<open>
  \<^verbatim>\<open>logout\<close> only logs a failure of its request; its \<^verbatim>\<open>finally\<close> block removes the token
  and goes to the login page.
\<close>

definition logout :: "(request \<Rightarrow> 'a reply) \<Rightarrow> world \<Rightarrow> (js_error + unit) \<times> world" where
  "logout srv w =
     (let (r, w1) = client_request srv (mkConfig POST ''/api/auth/logout'' [] NoBody) w;
          w2 = removeToken w1
      in (Inr (), if hasWindow w2 then w2\<lparr>href := ''/login''\<rparr> else w2))"

definition getCurrentUser :: "(request \<Rightarrow> User reply) \<Rightarrow> world \<Rightarrow> (js_error + User) \<times> world" where
  "getCurrentUser srv w = catch (client_request srv (mkConfig GET ''/api/auth/me'' [] NoBody) w)"

definition addFavorite ::
  "(request \<Rightarrow> Favorite reply) \<Rightarrow> FavoriteCreate \<Rightarrow> world \<Rightarrow> (js_error + Favorite) \<times> world" where
  "addFavorite srv d w =
     catch (client_request srv
       (mkConfig POST ''/api/favorites'' []
          (Json (JObj [(''favorite_type'', JStr (favorite_type d)),
                       (''favorite_id'', JStr (favorite_id d)),
                       (''notes'', opt_str (fav_notes d))]))) w)"

definition getFavorites ::
  "(request \<Rightarrow> Favorite list reply) \<Rightarrow> string option \<Rightarrow> world
     \<Rightarrow> (js_error + Favorite list) \<times> world" where
  "getFavorites srv favoriteType w =
     catch (client_request srv
       (mkConfig GET ''/api/favorites'' [(''favorite_type'', opt_str favoriteType)] NoBody) w)"

definition isFavorite ::
  "(request \<Rightarrow> Favorite list reply) \<Rightarrow> string \<Rightarrow> string \<Rightarrow> world \<Rightarrow> bool \<times> world" where
  "isFavorite srv itemId itemType w =
     (case getFavorites srv (Some itemType) w of
        (Inr favorites, w1) \<Rightarrow> (list_ex (\<lambda>fav. favorite_id fav = itemId) favorites, w1)
      | (Inl e, w1) \<Rightarrow> (False, w1))"

definition createForumPost ::
  "(request \<Rightarrow> 'a reply) \<Rightarrow> int \<Rightarrow> string \<Rightarrow> string \<Rightarrow> world \<Rightarrow> (js_error + 'a) \<times> world" where
  "createForumPost srv forumId title content w =
     (if trim title = [] then catch (Inl (Plain ''Post title cannot be empty''), w)
      else if trim content = [] then catch (Inl (Plain ''Post content cannot be empty''), w)
      else catch (client_request srv
             (mkConfig POST ''/api/forums/posts''
                [] (Json (JObj [(''forum_id'', JNum forumId), (''title'', JStr title),
                                (''content'', JStr content)]))) w))"

definition createForumReply ::
  "(request \<Rightarrow> 'a reply) \<Rightarrow> int \<Rightarrow> string \<Rightarrow> world \<Rightarrow> (js_error + 'a) \<times> world" where
  "createForumReply srv postId content w =
     (if trim content = [] then catch (Inl (Plain ''Reply content cannot be empty''), w)
      else catch (client_request srv
             (mkConfig POST ''/api/forums/replies''
                [] (Json (JObj [(''post_id'', JNum postId), (''content'', JStr content)]))) w))"

definition show_int :: "int \<Rightarrow> string" where
  "show_int i = (if i < 0 then ''-'' @ show_nat (nat (- i)) else show_nat (nat i))"

definition updateMeetingRequestStatus ::
  "(request \<Rightarrow> 'a reply) \<Rightarrow> int \<Rightarrow> string \<Rightarrow> world \<Rightarrow> (js_error + 'a) \<times> world" where
  "updateMeetingRequestStatus srv requestId status w =
     catch (client_request srv
       (mkConfig PUT (''/api/meeting-requests/'' @ show_int requestId) []
          (Json (JObj [(''status'', JStr status)]))) w)"

section \<open>The operation registry\<close>

text \<open>
  \<^verbatim>\<open>axios.CancelToken.source()\<close> makes a new source; sources are numbered in the order of
  their creation.
\<close>

definition newSource :: "world \<Rightarrow> nat \<times> world" where
  "newSource w = (nextSource w, w\<lparr>nextSource := Suc (nextSource w)\<rparr>)"

text \<open>
  \<^verbatim>\<open>source.cancel(message)\<close>, as axios specifies it: the source is marked; the request that
  carries its token, when a call still awaits it, is rejected with a cancellation and the
  reply of the transport, should one come, is dropped. The call that awaited is one of the
  search operations below: its \<^verbatim>\<open>catch\<close> block hands the cancellation to
  \<^verbatim>\<open>handleError\<close>, so it ends with that \<^verbatim>\<open>Error\<close>. A source whose request has already
  ended is marked and nothing else happens.
\<close>

definition cancel :: "nat \<Rightarrow> world \<Rightarrow> world" where
  "cancel source w =
     (let w1 = w\<lparr>cancelledSources := insert source (cancelledSources w)\<rparr>
      in case map_of (pending w1) source of
           None \<Rightarrow> w1
         | Some cancelKey \<Rightarrow>
             w1\<lparr>pending := filter (\<lambda>p. fst p \<noteq> source) (pending w1),
                settled := settled w1 @ [(source, Rejected (handleError AxiosCancel))]\<rparr>)"

text \<open>\<^verbatim>\<open>cancelRequest\<close> and \<^verbatim>\<open>getCancelToken\<close> of the client.\<close>

definition cancelRequest :: "string \<Rightarrow> world \<Rightarrow> world" where
  "cancelRequest key w =
     (case map_of (cancelTokens w) key of
        None \<Rightarrow> w
      | Some source \<Rightarrow>
          (let w1 = cancel source w in w1\<lparr>cancelTokens := AList.delete key (cancelTokens w1)\<rparr>))"

definition getCancelToken :: "string \<Rightarrow> world \<Rightarrow> nat \<times> world" where
  "getCancelToken key w =
     (let w1 = cancelRequest key w;
          (source, w2) = newSource w1
      in (source, w2\<lparr>cancelTokens := AList.update key source (cancelTokens w2)\<rparr>))"

text \<open>
  \<^verbatim>\<open>searchResearchers\<close>, \<^verbatim>\<open>searchClinicalTrials\<close>, \<^verbatim>\<open>searchPublications\<close> and
  \<^verbatim>\<open>searchHealthExperts\<close> have one body, with their own path, parameters and default
  key. \<open>search_start\<close> is that body up to its \<^verbatim>\<open>await\<close>: it takes the cancel token,
  hands the request to the transport and is suspended. \<open>search_resume\<close> is the body from
  the arrival of the reply on: on a 2xx response the entry under \<^verbatim>\<open>cancelKey\<close> is deleted
  and the data returned; on a failure \<^verbatim>\<open>handleError\<close> throws, and nothing else is done.
\<close>

definition search_start ::
  "string \<Rightarrow> (string \<times> jsval) list \<Rightarrow> string \<Rightarrow> world \<Rightarrow> nat \<times> request \<times> world" where
  "search_start u ps cancelKey w =
     (let (source, w1) = getCancelToken cancelKey w;
          (req, w2) = client_send ((mkConfig GET u ps NoBody)\<lparr>cancelToken := Some source\<rparr>) w1
      in (source, req, w2\<lparr>pending := pending w2 @ [(source, cancelKey)]\<rparr>))"

definition search_resume :: "string \<Rightarrow> 'a reply \<Rightarrow> world \<Rightarrow> (js_error + 'a) \<times> world" where
  "search_resume cancelKey reply w =
     (case client_settle reply w of
        (Inl e, w1) \<Rightarrow> catch (Inl e, w1)
      | (Inr d, w1) \<Rightarrow> catch (Inr d, w1\<lparr>cancelTokens := AList.delete cancelKey (cancelTokens w1)\<rparr>))"

fun outcome_of :: "js_error + 'a \<Rightarrow> outcome" where
  "outcome_of (Inl e) = Rejected e"
| "outcome_of (Inr d) = Resolved"

text \<open>
  The transport delivers a reply for the request of a source. When no call awaits that
  source any more (it ended, or it was cancelled), the reply is dropped; otherwise the
  suspended call resumes and ends.
\<close>

definition arrive :: "nat \<Rightarrow> 'a reply \<Rightarrow> world \<Rightarrow> (js_error + 'a) option \<times> world" where
  "arrive source reply w =
     (case map_of (pending w) source of
        None \<Rightarrow> (None, w)
      | Some cancelKey \<Rightarrow>
          (let (r, w1) = search_resume cancelKey reply
                           (w\<lparr>pending := filter (\<lambda>p. fst p \<noteq> source) (pending w)\<rparr>)
           in (Some r, w1\<lparr>settled := settled w1 @ [(source, outcome_of r)]\<rparr>)))"

definition trialsParams ::
  "string option \<Rightarrow> string option \<Rightarrow> string option \<Rightarrow> int \<Rightarrow> int \<Rightarrow> (string \<times> jsval) list" where
  "trialsParams keywords status location skip limit =
     [(''keywords'', opt_str keywords), (''status'', opt_str status),
      (''location'', opt_str location), (''skip'', JNum skip), (''limit'', JNum limit)]"

definition searchClinicalTrials_start ::
  "string option \<Rightarrow> string option \<Rightarrow> string option \<Rightarrow> int \<Rightarrow> int \<Rightarrow> string \<Rightarrow> world
     \<Rightarrow> nat \<times> request \<times> world" where
  "searchClinicalTrials_start keywords status location skip limit cancelKey w =
     search_start ''/api/trials'' (trialsParams keywords status location skip limit) cancelKey w"

definition searchResearchers_start ::
  "string option \<Rightarrow> int \<Rightarrow> int \<Rightarrow> string \<Rightarrow> world \<Rightarrow> nat \<times> request \<times> world" where
  "searchResearchers_start specialty skip limit cancelKey w =
     search_start ''/api/researchers''
       [(''specialty'', opt_str specialty), (''skip'', JNum skip), (''limit'', JNum limit)]
       cancelKey w"

definition searchPublications_start ::
  "string option \<Rightarrow> int \<Rightarrow> int \<Rightarrow> string \<Rightarrow> world \<Rightarrow> nat \<times> request \<times> world" where
  "searchPublications_start keywords skip limit cancelKey w =
     search_start ''/api/publications''
       [(''keywords'', opt_str keywords), (''skip'', JNum skip), (''limit'', JNum limit)]
       cancelKey w"

definition searchHealthExperts_start ::
  "string option \<Rightarrow> string option \<Rightarrow> int \<Rightarrow> int \<Rightarrow> string \<Rightarrow> world
     \<Rightarrow> nat \<times> request \<times> world" where
  "searchHealthExperts_start specialty location skip limit cancelKey w =
     search_start ''/api/experts''
       [(''specialty'', opt_str specialty), (''location'', opt_str location),
        (''skip'', JNum skip), (''limit'', JNum limit)]
       cancelKey w"

text \<open>\<^verbatim>\<open>searchClinicalTrials\<close> when the reply comes before anything else happens.\<close>

definition searchClinicalTrials ::
  "(request \<Rightarrow> 'a reply) \<Rightarrow> string option \<Rightarrow> string option \<Rightarrow> string option \<Rightarrow> int \<Rightarrow> int
     \<Rightarrow> string \<Rightarrow> world \<Rightarrow> (js_error + 'a) option \<times> world" where
  "searchClinicalTrials srv keywords status location skip limit cancelKey w =
     (let (source, req, w1) =
            searchClinicalTrials_start keywords status location skip limit cancelKey w
      in arrive source (srv req) w1)"

definition cancelAllRequests :: "world \<Rightarrow> world" where
  "cancelAllRequests w = (fold cancel (map snd (cancelTokens w)) w)\<lparr>cancelTokens := []\<rparr>"

text \<open>
  What can happen to the client, in any order: a search operation is called, the transport
  delivers the reply for a source, \<^verbatim>\<open>cancelAllRequests\<close> is called; and, of the
  operations that take no cancel token, a request is made and answered (\<open>Call\<close>), the
  token of a 2xx reply is stored as \<^verbatim>\<open>register\<close> and \<^verbatim>\<open>login\<close> do (\<open>Store\<close>), or
  \<^verbatim>\<open>logout\<close> runs.
\<close>

datatype 'a event =
    Start string "(string \<times> jsval) list" string
  | Arrive nat "'a reply"
  | CancelAll
  | Call request "'a reply"
  | Store string
  | Logout "'a reply"

fun step :: "'a event \<Rightarrow> world \<Rightarrow> world" where
  "step (Start u ps cancelKey) w = snd (snd (search_start u ps cancelKey w))"
| "step (Arrive source reply) w = snd (arrive source reply w)"
| "step CancelAll w = cancelAllRequests w"
| "step (Call cfg reply) w = snd (client_request (\<lambda>req. reply) cfg w)"
| "step (Store token) w = setToken token w"
| "step (Logout reply) w = snd (logout (\<lambda>req. reply) w)"

definition exec :: "'a event list \<Rightarrow> world \<Rightarrow> world" where
  "exec evs w = fold step evs w"

text \<open>
  The registry is well formed when every call that is still awaited has a source older
  than the next one, is the entry of its key in \<^verbatim>\<open>cancelTokens\<close>, and has not ended; and
  every call that ended has a source older than the next one.
\<close>

definition wf_world :: "world \<Rightarrow> bool" where
  "wf_world w =
     (list_all (\<lambda>(source, cancelKey).
        source < nextSource w \<and> map_of (cancelTokens w) cancelKey = Some source
        \<and> map_of (settled w) source = None) (pending w)
      \<and> list_all (\<lambda>(source, out). source < nextSource w) (settled w))"

text \<open>
  A source is cancelled for good: it exists, no call awaits it, and whatever ended under it
  ended as a cancellation.
\<close>

definition cancelled_only :: "nat \<Rightarrow> world \<Rightarrow> bool" where
  "cancelled_only old w =
     (old < nextSource w \<and> map_of (pending w) old = None
      \<and> list_all (\<lambda>(source, out). source = old \<longrightarrow> out = Rejected (Error ''Request was cancelled''))
           (settled w))"

section \<open>The store behind the gateway\<close>

text \<open>
  The schema (\<^verbatim>\<open>CREATE TABLE favorites\<close>, \<^verbatim>\<open>researcher_connections\<close>) declares
  \<^verbatim>\<open>UNIQUE(user_id, favorite_type, favorite_id)\<close> and \<^verbatim>\<open>UNIQUE(requester_id, receiver_id)\<close>:
  an insert of a row that repeats the columns of a stored row (with no NULL among them)
  fails and stores nothing. Tables are lists of rows in the order of creation.
\<close>

datatype db_error = unique_violation

definition same_favorite :: "int \<Rightarrow> string \<Rightarrow> string \<Rightarrow> Favorite \<Rightarrow> bool" where
  "same_favorite actor ftype fid f =
     (user_id f = actor \<and> favorite_type f = ftype \<and> favorite_id f = fid)"

definition insert_favorite :: "Favorite \<Rightarrow> Favorite list \<Rightarrow> db_error + Favorite list" where
  "insert_favorite f table =
     (if list_ex (same_favorite (user_id f) (favorite_type f) (favorite_id f)) table
      then Inl unique_violation else Inr (table @ [f]))"

text \<open>
  Modelled from the spec: the closed enumeration of item types of section 3, which no
  source declares (the schema names the four values in a comment on \<^verbatim>\<open>favorite_type\<close>).
\<close>

definition favorite_types :: "string list" where
  "favorite_types = [''trial'', ''publication'', ''expert'', ''researcher'']"

text \<open>
  Modelled from the spec: the handler behind \<^verbatim>\<open>POST /api/favorites\<close> is not among the
  sources. Sections 3 and 4.4: the item type is validated against the closed enumeration
  before any lookup; \<^verbatim>\<open>add\<close> on an existing triple returns the existing reference rather
  than erroring or duplicating; otherwise the reference is stored. The identity and the
  creation time of a new row are the store's, and parameters here.
\<close>

definition favorites_add ::
  "int \<Rightarrow> FavoriteCreate \<Rightarrow> int \<Rightarrow> string \<Rightarrow> Favorite list \<Rightarrow> Favorite reply \<times> Favorite list" where
  "favorites_add actor d newId now table =
     (if favorite_type d \<notin> set favorite_types
      then (Failure 422 (Some ''Unknown favorite type'') None, table)
      else case find (same_favorite actor (favorite_type d) (favorite_id d)) table of
             Some f \<Rightarrow> (Success f, table)
           | None \<Rightarrow>
               (let f = \<lparr>favorite_type = favorite_type d, favorite_id = favorite_id d,
                         fav_notes = fav_notes d, fav_ident = newId, user_id = actor,
                         created_at = now\<rparr>
                in case insert_favorite f table of
                     Inl e \<Rightarrow> (Failure 409 (Some ''Favorite already exists'') None, table)
                   | Inr table' \<Rightarrow> (Success f, table')))"

text \<open>The \<^verbatim>\<open>MeetingRequest\<close> of \<^verbatim>\<open>types/index.ts\<close>, its \<^verbatim>\<open>contact_info\<close> flattened.\<close>

record MeetingRequest =
  mr_ident :: int
  requester_id :: int
  expert_id :: int
  mr_message :: "string option"
  mr_status :: string
  contact_name :: string
  contact_email :: string
  contact_phone :: "string option"
  mr_created_at :: string

text \<open>
  Modelled from the spec: the conditions of section 7 that the workflow engine raises; the
  sources have no such type.
\<close>

datatype workflow_error = InvalidTransition | DuplicateRelationship | NotFound

text \<open>
  Modelled from the spec: the transition table of the workflow engine for meeting
  requests, which is not among the sources. Section 4.5: a meeting request goes from
  \<^verbatim>\<open>pending\<close> to \<^verbatim>\<open>approved\<close> or \<^verbatim>\<open>rejected\<close>, by an actor permitted to act for the
  target expert; any transition attempted from another state, or by another actor, fails
  with \<^verbatim>\<open>InvalidTransition\<close>. Who is permitted is a parameter.
\<close>

definition meeting_transition ::
  "(int \<Rightarrow> int \<Rightarrow> bool) \<Rightarrow> int \<Rightarrow> string \<Rightarrow> MeetingRequest \<Rightarrow> workflow_error + MeetingRequest" where
  "meeting_transition permitted actor target m =
     (if mr_status m = ''pending'' \<and> (target = ''approved'' \<or> target = ''rejected'')
         \<and> permitted actor (expert_id m)
      then Inr (m\<lparr>mr_status := target\<rparr>)
      else Inl InvalidTransition)"

text \<open>
  Modelled from the spec: the handler behind \<^verbatim>\<open>PUT /api/meeting-requests/{id}\<close> is not
  among the sources. It looks the request up and applies the transition table; a
  transition that fails does not change what is stored (section 4.5).
\<close>

definition meeting_update_status ::
  "(int \<Rightarrow> int \<Rightarrow> bool) \<Rightarrow> int \<Rightarrow> int \<Rightarrow> string \<Rightarrow> MeetingRequest list
     \<Rightarrow> (workflow_error + MeetingRequest) \<times> MeetingRequest list" where
  "meeting_update_status permitted actor requestId target table =
     (case find (\<lambda>m. mr_ident m = requestId) table of
        None \<Rightarrow> (Inl NotFound, table)
      | Some m \<Rightarrow>
          (case meeting_transition permitted actor target m of
             Inl e \<Rightarrow> (Inl e, table)
           | Inr m' \<Rightarrow> (Inr m', map (\<lambda>x. if mr_ident x = requestId then m' else x) table)))"

text \<open>A row of \<^verbatim>\<open>researcher_connections\<close>, and its unique constraint.\<close>

record ResearcherConnection =
  conn_ident :: int
  conn_requester_id :: int
  receiver_id :: int
  conn_status :: string

definition same_pair :: "int \<Rightarrow> int \<Rightarrow> ResearcherConnection \<Rightarrow> bool" where
  "same_pair requester receiver c = (conn_requester_id c = requester \<and> receiver_id c = receiver)"

definition insert_connection ::
  "ResearcherConnection \<Rightarrow> ResearcherConnection list \<Rightarrow> db_error + ResearcherConnection list" where
  "insert_connection c table =
     (if list_ex (same_pair (conn_requester_id c) (receiver_id c)) table
      then Inl unique_violation else Inr (table @ [c]))"

text \<open>
  Modelled from the spec: the handler that creates a connection request is not among the
  sources. Sections 3 and 4.5: a connection is created in state \<^verbatim>\<open>pending\<close>; creating one
  fails with \<^verbatim>\<open>DuplicateRelationship\<close> if an identical ordered pair already exists in any
  state.
\<close>

definition connection_create ::
  "int \<Rightarrow> int \<Rightarrow> int \<Rightarrow> ResearcherConnection list
     \<Rightarrow> (workflow_error + ResearcherConnection) \<times> ResearcherConnection list" where
  "connection_create requester receiver newId table =
     (let c = \<lparr>conn_ident = newId, conn_requester_id = requester, receiver_id = receiver,
               conn_status = ''pending''\<rparr>
      in case insert_connection c table of
           Inl e \<Rightarrow> (Inl DuplicateRelationship, table)
         | Inr table' \<Rightarrow> (Inr c, table'))"

section \<open>Example values\<close>

text \<open>
  The requests of \<^verbatim>\<open>createForumReply\<close> and \<^verbatim>\<open>createForumPost\<close>, and an actor with the
  role \<^verbatim>\<open>patient\<close>.
\<close>

definition replyConfig :: "int \<Rightarrow> string \<Rightarrow> request" where
  "replyConfig postId content =
     mkConfig POST ''/api/forums/replies'' []
       (Json (JObj [(''post_id'', JNum postId), (''content'', JStr content)]))"

definition postConfig :: "int \<Rightarrow> string \<Rightarrow> string \<Rightarrow> request" where
  "postConfig forumId title content =
     mkConfig POST ''/api/forums/posts'' []
       (Json (JObj [(''forum_id'', JNum forumId), (''title'', JStr title),
                    (''content'', JStr content)]))"

definition patient :: User where
  "patient = \<lparr>user_ident = 1, user_email = ''pat@example.org'', user_type = PATIENT,
              is_active = True, user_created_at = ''2024-01-01''\<rparr>"

text \<open>
  The state after \<^verbatim>\<open>searchClinicalTrials("cancer")\<close> was called, and after
  \<^verbatim>\<open>searchClinicalTrials("diabetes")\<close> was called next, before any reply.
\<close>

definition w_cancer :: world where
  "w_cancer = snd (snd (searchClinicalTrials_start (Some ''cancer'') None None 0 20 ''searchTrials'' init))"

definition w_diabetes :: world where
  "w_diabetes =
     snd (snd (searchClinicalTrials_start (Some ''diabetes'') None None 0 20 ''searchTrials'' w_cancer))"

definition req_diabetes :: request where
  "req_diabetes =
     \<lparr>meth = GET, url = ''/api/trials'',
      params = trialsParams (Some ''diabetes'') None None 0 20, body = NoBody,
      contentType = ''application/json'', authorization = None, cancelToken = Some 1\<rparr>"

definition trialFavorite :: FavoriteCreate where
  "trialFavorite = \<lparr>favorite_type = ''trial'', favorite_id = ''NCT01'', fav_notes = None\<rparr>"

definition storedFavorite :: Favorite where
  "storedFavorite = \<lparr>favorite_type = ''trial'', favorite_id = ''NCT01'', fav_notes = None,
                      fav_ident = 1, user_id = 7, created_at = ''2024-01-01''\<rparr>"

definition approvedRequest :: MeetingRequest where
  "approvedRequest =
     \<lparr>mr_ident = 4, requester_id = 7, expert_id = 9, mr_message = Some ''Could we talk?'',
      mr_status = ''approved'', contact_name = ''Pat'', contact_email = ''pat@example.org'',
      contact_phone = None, mr_created_at = ''2024-01-01''\<rparr>"

definition rejectedConnection :: ResearcherConnection where
  "rejectedConnection =
     \<lparr>conn_ident = 1, conn_requester_id = 11, receiver_id = 12, conn_status = ''rejected''\<rparr>"

section \<open>Basic facts\<close>

subsection \<open>Strings, the client and the plain operations\<close>

lemma dropWhile_all_iff: "(\<forall>c \<in> set (dropWhile P s). P c) \<longleftrightarrow> (\<forall>c \<in> set s. P c)"
proof
  assume all: "\<forall>c \<in> set (dropWhile P s). P c"
  have "dropWhile P s = []"
  proof (rule ccontr)
    assume ne: "dropWhile P s \<noteq> []"
    then have "\<not> P (hd (dropWhile P s))" by (rule hd_dropWhile)
    moreover from ne have "hd (dropWhile P s) \<in> set (dropWhile P s)" by simp
    ultimately show False using all by blast
  qed
  then show "\<forall>c \<in> set s. P c" by simp
next
  assume "\<forall>c \<in> set s. P c"
  then show "\<forall>c \<in> set (dropWhile P s). P c" by (blast dest: set_dropWhileD)
qed

lemma trim_empty_iff: "trim s = [] \<longleftrightarrow> (\<forall>c \<in> set s. isWhiteSpace c)"
  by (simp add: trim_def dropWhile_all_iff)

lemma show_nat_401: "show_nat 401 = ''401''"
  by (simp add: show_nat.simps digit_def)

lemma removeToken_sent [simp]: "sent (removeToken w) = sent w"
  by (simp add: removeToken_def)

lemma removeToken_hasWindow [simp]: "hasWindow (removeToken w) = hasWindow w"
  by (simp add: removeToken_def)

lemma getToken_removeToken [simp]: "getToken (removeToken w) = None"
  by (simp add: removeToken_def getToken_def)

lemma responseInterceptor_sent [simp]: "sent (responseInterceptor e w) = sent w"
  by (cases e) (simp_all add: Let_def)

lemma client_request_sent [simp]:
  "sent (snd (client_request srv cfg w)) = sent w @ [requestInterceptor cfg w]"
  by (cases "srv (requestInterceptor cfg w)")
     (simp_all add: client_request_def client_send_def Let_def)

lemma client_request_fst [simp]:
  "fst (client_request srv cfg w) =
     (case srv (requestInterceptor cfg w) of
        Success d \<Rightarrow> Inr d
      | Failure status detail message \<Rightarrow> Inl (AxiosResponse status detail message)
      | NoResponse \<Rightarrow> Inl AxiosNoResponse)"
  by (cases "srv (requestInterceptor cfg w)")
     (simp_all add: client_request_def client_send_def Let_def)

lemma catch_snd [simp]: "snd (catch p) = snd p"
  by (cases p, cases "fst p") auto

lemma catch_fst [simp]:
  "fst (catch p) = (case fst p of Inl e \<Rightarrow> Inl (handleError e) | Inr d \<Rightarrow> Inr d)"
  by (cases p, cases "fst p") auto

lemma setToken_sent [simp]: "sent (setToken t w) = sent w"
  by (simp add: setToken_def)

lemma login_sent:
  "validateEmail email \<Longrightarrow>
     sent (snd (login srv email password w))
       = sent w @ [requestInterceptor (loginConfig email password) w]"
proof -
  assume v: "validateEmail email"
  obtain r w1 where cr: "client_request srv (loginConfig email password) w = (r, w1)"
    by (cases "client_request srv (loginConfig email password) w")
  have "sent w1 = sent w @ [requestInterceptor (loginConfig email password) w]"
    using client_request_sent [of srv "loginConfig email password" w] cr by simp
  then show ?thesis
    using v cr by (cases r) (simp_all add: login_def)
qed

lemma valid_a_b_co: "validateEmail ''a@b.co''"
  by (simp add: validateEmail_def emailRegex_def notSpaceAt_def isWhiteSpace_def)

lemma invalid_a_b: "\<not> validateEmail ''a@b''"
  by (simp add: validateEmail_def emailRegex_def notSpaceAt_def isWhiteSpace_def)

lemma isFavorite_fst:
  "fst (isFavorite srv itemId itemType w) =
     (case srv (requestInterceptor
                  (mkConfig GET ''/api/favorites'' [(''favorite_type'', JStr itemType)] NoBody) w) of
        Success favorites \<Rightarrow> itemId \<in> favorite_id ` set favorites
      | Failure status detail message \<Rightarrow> False
      | NoResponse \<Rightarrow> False)"
proof -
  let ?cfg = "mkConfig GET ''/api/favorites'' [(''favorite_type'', JStr itemType)] NoBody"
  obtain r w1 where g: "getFavorites srv (Some itemType) w = (r, w1)"
    by (cases "getFavorites srv (Some itemType) w")
  have "r = fst (catch (client_request srv ?cfg w))"
    using g by (simp add: getFavorites_def)
  then show ?thesis
    using g by (cases "srv (requestInterceptor ?cfg w)")
      (auto simp: isFavorite_def list_ex_iff)
qed

lemma client_request_getToken_401:
  "srv (requestInterceptor cfg w) = Failure 401 detail message \<Longrightarrow>
     getToken (snd (client_request srv cfg w)) = None"
  by (simp add: client_request_def client_send_def Let_def getToken_def removeToken_def)

lemma client_request_href_401:
  "srv (requestInterceptor cfg w) = Failure 401 detail message \<Longrightarrow> hasWindow w \<Longrightarrow>
     href (snd (client_request srv cfg w)) = ''/login''"
  by (simp add: client_request_def client_send_def Let_def removeToken_def)

lemma requestInterceptor_authUser [simp]:
  "requestInterceptor cfg (w\<lparr>authUser := a\<rparr>) = requestInterceptor cfg w"
  by (simp add: requestInterceptor_def getToken_def)

subsection \<open>The fields of the state after each step of the registry\<close>

lemma filter_fst_id: "map_of xs s = None \<Longrightarrow> filter (\<lambda>p. fst p \<noteq> s) xs = xs"
  by (induction xs) (auto split: if_splits)

lemma map_of_filter_fst:
  "map_of (filter (\<lambda>p. fst p \<noteq> s) xs) t = (if t = s then None else map_of xs t)"
  by (induction xs) auto

lemma cancel_fields [simp]:
  "nextSource (cancel s w) = nextSource w"
  "cancelTokens (cancel s w) = cancelTokens w"
  "sent (cancel s w) = sent w"
  "hasWindow (cancel s w) = hasWindow w"
  "authToken (cancel s w) = authToken w"
  "cancelledSources (cancel s w) = insert s (cancelledSources w)"
  "pending (cancel s w) = filter (\<lambda>p. fst p \<noteq> s) (pending w)"
  "settled (cancel s w) =
     settled w @ (case map_of (pending w) s of
                    None \<Rightarrow> []
                  | Some cancelKey \<Rightarrow> [(s, Rejected (Error ''Request was cancelled''))])"
  by (simp_all add: cancel_def Let_def filter_fst_id split: option.splits)

lemma cancelRequest_fields [simp]:
  "nextSource (cancelRequest k w) = nextSource w"
  "sent (cancelRequest k w) = sent w"
  "hasWindow (cancelRequest k w) = hasWindow w"
  "authToken (cancelRequest k w) = authToken w"
  "cancelTokens (cancelRequest k w) = AList.delete k (cancelTokens w)"
  "cancelledSources (cancelRequest k w) =
     (case map_of (cancelTokens w) k of None \<Rightarrow> cancelledSources w
      | Some s \<Rightarrow> insert s (cancelledSources w))"
  "pending (cancelRequest k w) =
     (case map_of (cancelTokens w) k of None \<Rightarrow> pending w
      | Some s \<Rightarrow> filter (\<lambda>p. fst p \<noteq> s) (pending w))"
  "settled (cancelRequest k w) =
     (case map_of (cancelTokens w) k of None \<Rightarrow> settled w
      | Some s \<Rightarrow> settled (cancel s w))"
  by (simp_all add: cancelRequest_def Let_def delete_notin_dom map_of_eq_None_iff [symmetric]
        del: cancel_fields(8) split: option.splits)

lemma getCancelToken_fst [simp]: "fst (getCancelToken k w) = nextSource w"
  by (simp add: getCancelToken_def newSource_def Let_def)

lemma getCancelToken_fields [simp]:
  "nextSource (snd (getCancelToken k w)) = Suc (nextSource w)"
  "sent (snd (getCancelToken k w)) = sent w"
  "hasWindow (snd (getCancelToken k w)) = hasWindow w"
  "authToken (snd (getCancelToken k w)) = authToken w"
  "cancelTokens (snd (getCancelToken k w)) = AList.update k (nextSource w) (AList.delete k (cancelTokens w))"
  "cancelledSources (snd (getCancelToken k w)) = cancelledSources (cancelRequest k w)"
  "pending (snd (getCancelToken k w)) = pending (cancelRequest k w)"
  "settled (snd (getCancelToken k w)) = settled (cancelRequest k w)"
  by (simp_all add: getCancelToken_def newSource_def Let_def del: cancelRequest_fields(6,7,8))

lemma search_start_unfold:
  "search_start u ps k w =
     (nextSource w,
      requestInterceptor ((mkConfig GET u ps NoBody)\<lparr>cancelToken := Some (nextSource w)\<rparr>) w,
      (snd (getCancelToken k w))
        \<lparr>sent := sent w @
           [requestInterceptor ((mkConfig GET u ps NoBody)\<lparr>cancelToken := Some (nextSource w)\<rparr>) w],
         pending := pending (cancelRequest k w) @ [(nextSource w, k)]\<rparr>)"
proof -
  have "getToken (snd (getCancelToken k w)) = getToken w"
    by (simp add: getToken_def)
  then have "requestInterceptor c (snd (getCancelToken k w)) = requestInterceptor c w" for c
    by (simp add: requestInterceptor_def)
  then show ?thesis
    by (simp add: search_start_def client_send_def Let_def case_prod_beta
          del: cancelRequest_fields(6,7,8))
qed

lemma search_start_fst [simp]: "fst (search_start u ps k w) = nextSource w"
  by (simp add: search_start_unfold)

lemma search_start_req:
  "fst (snd (search_start u ps k w))
     = requestInterceptor ((mkConfig GET u ps NoBody)\<lparr>cancelToken := Some (nextSource w)\<rparr>) w"
  by (simp add: search_start_unfold)

lemma search_start_fields [simp]:
  "nextSource (snd (snd (search_start u ps k w))) = Suc (nextSource w)"
  "sent (snd (snd (search_start u ps k w))) = sent w @ [fst (snd (search_start u ps k w))]"
  "cancelTokens (snd (snd (search_start u ps k w)))
     = AList.update k (nextSource w) (AList.delete k (cancelTokens w))"
  "cancelledSources (snd (snd (search_start u ps k w))) = cancelledSources (cancelRequest k w)"
  "pending (snd (snd (search_start u ps k w))) = pending (cancelRequest k w) @ [(nextSource w, k)]"
  "settled (snd (snd (search_start u ps k w))) = settled (cancelRequest k w)"
  by (simp_all add: search_start_unfold del: cancelRequest_fields(6,7,8))

lemma responseInterceptor_fields [simp]:
  "nextSource (responseInterceptor e w) = nextSource w"
  "cancelTokens (responseInterceptor e w) = cancelTokens w"
  "cancelledSources (responseInterceptor e w) = cancelledSources w"
  "pending (responseInterceptor e w) = pending w"
  "settled (responseInterceptor e w) = settled w"
  by (cases e; simp add: removeToken_def Let_def)+

lemma client_settle_fields [simp]:
  "nextSource (snd (client_settle r w)) = nextSource w"
  "cancelTokens (snd (client_settle r w)) = cancelTokens w"
  "cancelledSources (snd (client_settle r w)) = cancelledSources w"
  "pending (snd (client_settle r w)) = pending w"
  "settled (snd (client_settle r w)) = settled w"
  "sent (snd (client_settle r w)) = sent w"
  by (cases r; simp del: responseInterceptor.simps)+

lemma client_request_registry [simp]:
  "nextSource (snd (client_request srv cfg w)) = nextSource w"
  "cancelTokens (snd (client_request srv cfg w)) = cancelTokens w"
  "pending (snd (client_request srv cfg w)) = pending w"
  "settled (snd (client_request srv cfg w)) = settled w"
  by (simp_all add: client_request_def client_send_def Let_def)

lemma setToken_registry [simp]:
  "nextSource (setToken t w) = nextSource w"
  "cancelTokens (setToken t w) = cancelTokens w"
  "pending (setToken t w) = pending w"
  "settled (setToken t w) = settled w"
  by (simp_all add: setToken_def)

lemma logout_registry [simp]:
  "nextSource (snd (logout srv w)) = nextSource w"
  "cancelTokens (snd (logout srv w)) = cancelTokens w"
  "pending (snd (logout srv w)) = pending w"
  "settled (snd (logout srv w)) = settled w"
  by (simp_all add: logout_def Let_def removeToken_def case_prod_beta)

lemma client_settle_fst:
  "fst (client_settle r w) =
     (case r of Success d \<Rightarrow> Inr d
      | Failure status detail message \<Rightarrow> Inl (AxiosResponse status detail message)
      | NoResponse \<Rightarrow> Inl AxiosNoResponse)"
  by (cases r) simp_all

lemma search_resume_fst:
  "fst (search_resume k r w) =
     (case r of Success d \<Rightarrow> Inr d
      | Failure status detail message \<Rightarrow> Inl (handleError (AxiosResponse status detail message))
      | NoResponse \<Rightarrow> Inl (handleError AxiosNoResponse))"
  by (cases r) (simp_all add: search_resume_def del: handleError.simps responseInterceptor.simps)

lemma search_resume_fields [simp]:
  "nextSource (snd (search_resume k r w)) = nextSource w"
  "cancelTokens (snd (search_resume k r w))
     = (case r of Success d \<Rightarrow> AList.delete k (cancelTokens w)
        | Failure status detail message \<Rightarrow> cancelTokens w 
        | NoResponse \<Rightarrow> cancelTokens w)"
  "cancelledSources (snd (search_resume k r w)) = cancelledSources w"
  "pending (snd (search_resume k r w)) = pending w"
  "settled (snd (search_resume k r w)) = settled w"
  "sent (snd (search_resume k r w)) = sent w"
  by (cases r; simp add: search_resume_def del: handleError.simps responseInterceptor.simps)+

lemma arrive_dropped: "map_of (pending w) s = None \<Longrightarrow> arrive s r w = (None, w)"
  by (simp add: arrive_def)

lemma arrive_fst:
  "map_of (pending w) s = Some k \<Longrightarrow>
     fst (arrive s r w) = Some (fst (search_resume k r (w\<lparr>pending := filter (\<lambda>p. fst p \<noteq> s) (pending w)\<rparr>)))"
  by (simp add: arrive_def Let_def split: prod.splits)

lemma arrive_fields:
  assumes "map_of (pending w) s = Some k"
  shows "nextSource (snd (arrive s r w)) = nextSource w"
    "cancelTokens (snd (arrive s r w))
       = (case r of Success d \<Rightarrow> AList.delete k (cancelTokens w)
          | Failure status detail message \<Rightarrow> cancelTokens w 
          | NoResponse \<Rightarrow> cancelTokens w)"
    "cancelledSources (snd (arrive s r w)) = cancelledSources w"
    "pending (snd (arrive s r w)) = filter (\<lambda>p. fst p \<noteq> s) (pending w)"
    "settled (snd (arrive s r w))
       = settled w @ [(s, outcome_of (fst (search_resume k r
                            (w\<lparr>pending := filter (\<lambda>p. fst p \<noteq> s) (pending w)\<rparr>))))]"
    "sent (snd (arrive s r w)) = sent w"
proof -
  let ?w = "w\<lparr>pending := filter (\<lambda>p. fst p \<noteq> s) (pending w)\<rparr>"
  obtain res w1 where sr: "search_resume k r ?w = (res, w1)" by (cases "search_resume k r ?w")
  have w1: "w1 = snd (search_resume k r ?w)" and res: "res = fst (search_resume k r ?w)"
    using sr by simp_all
  have a: "arrive s r w = (Some res, w1\<lparr>settled := settled w1 @ [(s, outcome_of res)]\<rparr>)"
    using assms sr by (simp add: arrive_def Let_def)
  show "nextSource (snd (arrive s r w)) = nextSource w"
    "cancelTokens (snd (arrive s r w))
       = (case r of Success d \<Rightarrow> AList.delete k (cancelTokens w)
          | Failure status detail message \<Rightarrow> cancelTokens w 
          | NoResponse \<Rightarrow> cancelTokens w)"
    "cancelledSources (snd (arrive s r w)) = cancelledSources w"
    "pending (snd (arrive s r w)) = filter (\<lambda>p. fst p \<noteq> s) (pending w)"
    "settled (snd (arrive s r w))
       = settled w @ [(s, outcome_of (fst (search_resume k r ?w)))]"
    "sent (snd (arrive s r w)) = sent w"
    by (simp_all add: a w1 res [symmetric] split: reply.splits)
qed

subsection \<open>A cancelled source stays cancelled\<close>

lemma cancelled_only_cancel: "cancelled_only old w \<Longrightarrow> cancelled_only old (cancel s w)"
  by (simp add: cancelled_only_def map_of_filter_fst split: option.splits)

lemma cancelled_only_cancelRequest:
  "cancelled_only old w \<Longrightarrow> cancelled_only old (cancelRequest k w)"
  by (simp add: cancelled_only_def map_of_filter_fst split: option.splits)

lemma cancelled_only_fold_cancel:
  "cancelled_only old w \<Longrightarrow> cancelled_only old (fold cancel ss w)"
  by (induction ss arbitrary: w) (simp_all add: cancelled_only_cancel)

lemma cancelled_only_cancelTokens [simp]:
  "cancelled_only old (w\<lparr>cancelTokens := ct\<rparr>) = cancelled_only old w"
  by (simp add: cancelled_only_def)

lemma cancelled_only_step: "cancelled_only old w \<Longrightarrow> cancelled_only old (step ev w)"
proof (cases ev)
  case (Start u ps k)
  assume c: "cancelled_only old w"
  then have "cancelled_only old (cancelRequest k w)" by (rule cancelled_only_cancelRequest)
  then show ?thesis
    using Start by (simp add: cancelled_only_def del: cancelRequest_fields(6,7,8))
next
  case (Arrive s r)
  assume c: "cancelled_only old w"
  show ?thesis
  proof (cases "map_of (pending w) s")
    case None
    then show ?thesis using c Arrive by (simp add: arrive_dropped)
  next
    case (Some k)
    then have "s \<noteq> old" using c by (auto simp: cancelled_only_def)
    then show ?thesis
      using c Arrive Some by (simp add: cancelled_only_def arrive_fields map_of_filter_fst)
  qed
next
  case CancelAll
  assume "cancelled_only old w"
  then show ?thesis
    using CancelAll by (simp add: cancelAllRequests_def cancelled_only_fold_cancel)
next
  case (Call cfg r)
  assume "cancelled_only old w"
  then show ?thesis using Call by (simp add: cancelled_only_def)
next
  case (Store t)
  assume "cancelled_only old w"
  then show ?thesis using Store by (simp add: cancelled_only_def)
next
  case (Logout r)
  assume "cancelled_only old w"
  then show ?thesis using Logout by (simp add: cancelled_only_def)
qed

lemma cancelled_only_exec: "cancelled_only old w \<Longrightarrow> cancelled_only old (exec evs w)"
  unfolding exec_def by (induction evs arbitrary: w) (simp_all add: cancelled_only_step)

subsection \<open>The registry stays well formed\<close>

lemma wf_world_iff:
  "wf_world w \<longleftrightarrow>
     (\<forall>(s, k) \<in> set (pending w).
         s < nextSource w \<and> map_of (cancelTokens w) k = Some s \<and> map_of (settled w) s = None)
     \<and> (\<forall>(s, out) \<in> set (settled w). s < nextSource w)"
  by (simp add: wf_world_def list_all_iff)

lemma wf_init: "wf_world init"
  by (simp add: wf_world_def init_def)

lemma map_of_snoc_other: "t \<noteq> s \<Longrightarrow> map_of (xs @ [(s, v)]) t = map_of xs t"
  by (induction xs) auto

lemma wf_cancel:
  assumes wf: "wf_world w"
  shows "wf_world (cancel s w)"
proof (cases "map_of (pending w) s")
  case None
  then show ?thesis
    using wf by (auto simp: wf_world_iff)
next
  case (Some k)
  then have "(s, k) \<in> set (pending w)" by (rule map_of_SomeD)
  then have "s < nextSource w" using wf by (auto simp: wf_world_iff)
  then show ?thesis
    using wf Some by (auto simp: wf_world_iff map_of_snoc_other)
qed

lemma wf_cancelRequest:
  assumes wf: "wf_world w"
  shows "wf_world (cancelRequest k w)"
    and "\<forall>(s, k') \<in> set (pending (cancelRequest k w)). k' \<noteq> k"
proof -
  show "wf_world (cancelRequest k w)"
  proof (cases "map_of (cancelTokens w) k")
    case None
    then show ?thesis using wf by (simp add: cancelRequest_def)
  next
    case (Some s)
    have c: "wf_world (cancel s w)" using wf by (rule wf_cancel)
    have "k' \<noteq> k" if "(s', k') \<in> set (pending (cancel s w))" for s' k'
    proof
      assume "k' = k"
      moreover from that have "s' \<noteq> s" and "(s', k') \<in> set (pending w)" by auto
      moreover from this wf have "map_of (cancelTokens w) k' = Some s'"
        by (auto simp: wf_world_iff)
      ultimately show False using Some by simp
    qed
    then show ?thesis
      using c Some
      by (simp add: cancelRequest_def Let_def wf_world_iff del: cancel_fields(7,8))
         (auto simp: delete_conv)
  qed
  show "\<forall>(s, k') \<in> set (pending (cancelRequest k w)). k' \<noteq> k"
  proof (cases "map_of (cancelTokens w) k")
    case None
    then show ?thesis using wf by (auto simp: wf_world_iff)
  next
    case (Some s)
    then show ?thesis using wf by (auto simp: wf_world_iff)
  qed
qed

lemma wf_start:
  assumes wf: "wf_world w"
  shows "wf_world (snd (snd (search_start u ps k w)))"
proof -
  let ?c = "cancelRequest k w"
  have c: "wf_world ?c" and nk: "\<forall>(s, k') \<in> set (pending ?c). k' \<noteq> k"
    using wf by (rule wf_cancelRequest)+
  have fresh: "map_of (settled ?c) (nextSource w) = None"
  proof -
    have "nextSource w \<notin> fst ` set (settled ?c)"
      using c by (auto simp: wf_world_iff simp del: cancelRequest_fields(8))
    then show ?thesis by (simp add: map_of_eq_None_iff del: cancelRequest_fields(8))
  qed
  show ?thesis
    using c nk fresh
    by (simp add: wf_world_iff update_conv del: cancelRequest_fields(6,7,8))
       (auto simp: less_Suc_eq)
qed

lemma wf_arrive:
  assumes wf: "wf_world w"
  shows "wf_world (snd (arrive s r w))"
proof (cases "map_of (pending w) s")
  case None
  then show ?thesis using wf by (simp add: arrive_dropped)
next
  case (Some k)
  then have sk: "(s, k) \<in> set (pending w)" by (rule map_of_SomeD)
  then have lt: "s < nextSource w" and reg: "map_of (cancelTokens w) k = Some s"
    using wf by (auto simp: wf_world_iff)
  have other: "k' \<noteq> k" if "(s', k') \<in> set (pending w)" "s' \<noteq> s" for s' k'
    using that wf reg by (auto simp: wf_world_iff)
  show ?thesis
    using wf lt other
    by (cases r) (auto simp: wf_world_iff arrive_fields [OF Some] map_of_snoc_other delete_conv)
qed

lemma wf_fold_cancel: "wf_world w \<Longrightarrow> wf_world (fold cancel ss w)"
  by (induction ss arbitrary: w) (simp_all add: wf_cancel)

lemma fold_cancel_nextSource [simp]: "nextSource (fold cancel ss w) = nextSource w"
  by (induction ss arbitrary: w) simp_all

lemma fold_cancel_pending [simp]:
  "pending (fold cancel ss w) = filter (\<lambda>p. fst p \<notin> set ss) (pending w)"
  by (induction ss arbitrary: w) (auto intro: filter_cong)

lemma wf_cancelAll:
  assumes wf: "wf_world w"
  shows "wf_world (cancelAllRequests w)"
proof -
  let ?ss = "map snd (cancelTokens w)"
  have "fst p \<in> set ?ss" if "p \<in> set (pending w)" for p
  proof -
    obtain s k where p: "p = (s, k)" by (cases p)
    then have "map_of (cancelTokens w) k = Some s" using that wf by (auto simp: wf_world_iff)
    then have "(k, s) \<in> set (cancelTokens w)" by (rule map_of_SomeD)
    then show ?thesis using p by force
  qed
  then have "filter (\<lambda>p. fst p \<notin> set ?ss) (pending w) = []"
    by (simp add: filter_empty_conv)
  moreover have "wf_world (fold cancel ?ss w)" using wf by (rule wf_fold_cancel)
  ultimately show ?thesis
    by (simp add: cancelAllRequests_def wf_world_iff)
qed

lemma wf_same_registry:
  assumes "wf_world w" and "nextSource w' = nextSource w" and "cancelTokens w' = cancelTokens w"
    and "pending w' = pending w" and "settled w' = settled w"
  shows "wf_world w'"
  using assms by (simp add: wf_world_def)

lemma wf_step: "wf_world w \<Longrightarrow> wf_world (step ev w)"
  by (cases ev) (simp_all add: wf_start wf_arrive wf_cancelAll wf_same_registry)

lemma wf_exec: "wf_world w \<Longrightarrow> wf_world (exec evs w)"
  unfolding exec_def by (induction evs arbitrary: w) (simp_all add: wf_step)

subsection \<open>Lists of rows\<close>

lemma find_same_favorite_snoc:
  "find (same_favorite a t i) table = None \<Longrightarrow> same_favorite a t i f \<Longrightarrow>
     find (same_favorite a t i) (table @ [f]) = Some f"
  by (induction table) (auto split: if_splits)

lemma filter_none: "find P xs = None \<Longrightarrow> filter P xs = []"
  by (induction xs) (auto split: if_splits)

lemma find_Some_filter: "find P xs = Some x \<Longrightarrow> x \<in> set (filter P xs)"
  by (induction xs) (auto split: if_splits)

section \<open>Properties\<close>

text \<open>
  C1: let a search operation be awaited under a key of a well-formed registry, and let a
  new search operation be called under the same key (the four search operations are the
  cancellable ones). Then \<^verbatim>\<open>getCancelToken\<close> has
  cancelled the source of the prior call, which ended as \<^verbatim>\<open>Request was cancelled\<close>,
  before the new request is handed to the transport; the registry holds the new source
  under the key, and the new call is awaited in place of the prior one. Whatever happens
  afterwards, nothing but that cancellation ever ends under the prior source, and a reply
  that arrives for it is dropped and changes nothing; the reply for the new call is
  delivered to it. The initial registry is well formed and every step keeps it so
  (\<open>wf_init\<close>, \<open>wf_exec\<close>).
\<close>

theorem C1_newer_call_supersedes:
  assumes wf: "wf_world w"
    and prior: "(old, k) \<in> set (pending w)"
    and start: "search_start u ps k w = (new, req, w1)"
  shows "old \<in> cancelledSources (snd (getCancelToken k w))
    \<and> (old, Rejected (Error ''Request was cancelled'')) \<in> set (settled (snd (getCancelToken k w)))
    \<and> sent (snd (getCancelToken k w)) = sent w
    \<and> sent w1 = sent w @ [req] \<and> cancelToken req = Some new \<and> new \<noteq> old
    \<and> map_of (cancelTokens w1) k = Some new
    \<and> pending w1 = filter (\<lambda>p. fst p \<noteq> old) (pending w) @ [(new, k)]
    \<and> (\<forall>out. (old, out) \<in> set (settled (exec evs w1)) \<longrightarrow>
           out = Rejected (Error ''Request was cancelled''))
    \<and> arrive old r (exec evs w1) = (None, exec evs w1)
    \<and> fst (arrive new (Success d) w1) = Some (Inr d)"
proof -
  from wf prior have lt: "old < nextSource w"
    and reg: "map_of (cancelTokens w) k = Some old"
    and unsettled: "map_of (settled w) old = None"
    by (auto simp: wf_world_iff)
  from prior have "old \<in> fst ` set (pending w)" by force
  then obtain k' where pend: "map_of (pending w) old = Some k'"
    by (cases "map_of (pending w) old") (simp_all add: map_of_eq_None_iff)
  from start have new: "new = nextSource w"
    and req: "req = requestInterceptor
                ((mkConfig GET u ps NoBody)\<lparr>cancelToken := Some (nextSource w)\<rparr>) w"
    and w1: "w1 = snd (snd (search_start u ps k w))"
    using search_start_fst [of u ps k w] search_start_req [of u ps k w] by simp_all
  have c1: "old \<in> cancelledSources (snd (getCancelToken k w))"
    using reg by simp
  have c2: "(old, Rejected (Error ''Request was cancelled'')) \<in> set (settled (snd (getCancelToken k w)))"
    using reg pend by simp
  have c3: "sent (snd (getCancelToken k w)) = sent w" by simp
  have c4: "sent w1 = sent w @ [req]"
    using w1 req by (simp add: search_start_req)
  have c5: "cancelToken req = Some new"
    using req new by (simp add: requestInterceptor_def)
  have c6: "new \<noteq> old" using lt new by simp
  have c7: "map_of (cancelTokens w1) k = Some new"
    using w1 new by (simp add: update_conv)
  have c8: "pending w1 = filter (\<lambda>p. fst p \<noteq> old) (pending w) @ [(new, k)]"
    using w1 new reg by simp
  have not_old: "\<forall>out. (old, out) \<notin> set (settled w)"
    using unsettled by (force simp: map_of_eq_None_iff)
  have co: "cancelled_only old w1"
    using lt c6 not_old reg pend w1 new
    by (auto simp: cancelled_only_def map_of_filter_fst map_of_snoc_other list_all_iff)
  then have coe: "cancelled_only old (exec evs w1)" by (rule cancelled_only_exec)
  have c9: "\<forall>out. (old, out) \<in> set (settled (exec evs w1)) \<longrightarrow>
           out = Rejected (Error ''Request was cancelled'')"
    using coe by (auto simp: cancelled_only_def list_all_iff)
  have c10: "arrive old r (exec evs w1) = (None, exec evs w1)"
    using coe by (simp add: cancelled_only_def arrive_dropped)
  have "new \<notin> fst ` set (pending w)"
    using wf new by (auto simp: wf_world_iff)
  then have "map_of (filter (\<lambda>p. fst p \<noteq> old) (pending w)) new = None"
    by (simp add: map_of_filter_fst map_of_eq_None_iff)
  then have "map_of (pending w1) new = Some k"
    using c8 by (simp add: map_add_def)
  then have c11: "fst (arrive new (Success d) w1) = Some (Inr d)"
    by (simp add: arrive_fst search_resume_fst)
  from c1 c2 c3 c4 c5 c6 c7 c8 c9 c10 c11 show ?thesis by blast
qed

theorem C1_witness:
  "wf_world w_cancer \<and> (0, ''searchTrials'') \<in> set (pending w_cancer)
   \<and> search_start ''/api/trials'' (trialsParams (Some ''diabetes'') None None 0 20) ''searchTrials'' w_cancer
       = (1, req_diabetes, w_diabetes)
   \<and> 0 \<in> cancelledSources w_diabetes
   \<and> sent w_diabetes = sent w_cancer @ [req_diabetes]
   \<and> map_of (cancelTokens w_diabetes) ''searchTrials'' = Some 1
   \<and> pending w_diabetes = [(1, ''searchTrials'')]
   \<and> arrive 0 (Success ''cancer trials'') w_diabetes = (None, w_diabetes)
   \<and> fst (arrive 1 (Success ''diabetes trials'') w_diabetes) = Some (Inr ''diabetes trials'')
   \<and> settled (exec [Arrive 0 (Success ''cancer trials''), Arrive 1 (Success ''diabetes trials'')]
                w_diabetes)
       = [(0, Rejected (Error ''Request was cancelled'')), (1, Resolved)]"
proof -
  have h1: "wf_world w_cancer" by code_simp
  have h2: "(0, ''searchTrials'') \<in> set (pending w_cancer)" by code_simp
  have h3: "search_start ''/api/trials'' (trialsParams (Some ''diabetes'') None None 0 20)
              ''searchTrials'' w_cancer = (1, req_diabetes, w_diabetes)"
    by code_simp
  have h4: "settled (exec [Arrive 0 (Success ''cancer trials''), Arrive 1 (Success ''diabetes trials'')]
                w_diabetes)
       = [(0, Rejected (Error ''Request was cancelled'')), (1, Resolved)]"
    by code_simp
  have h5: "pending w_cancer = [(0, ''searchTrials'')]" by code_simp
  have h6: "0 \<in> cancelledSources w_diabetes" by code_simp
  note t = C1_newer_call_supersedes [OF h1 h2 h3, where evs = "[] :: string event list"
      and r = "Success ''cancer trials''" and d = "''diabetes trials''"]
  from t h1 h2 h3 h4 h5 h6 show ?thesis by (simp add: exec_def)
qed

text \<open>
  C2 does not hold of the code: \<^verbatim>\<open>searchClinicalTrials\<close> deletes the entry of its key
  after the \<^verbatim>\<open>await\<close> only, so a call that fails leaves it behind. Under the key
  \<^verbatim>\<open>searchTrials\<close>, a call that gets no response fails, is no longer awaited, and its
  entry is still in \<^verbatim>\<open>cancelTokens\<close>; the same call with a 2xx response leaves no entry.
\<close>

theorem C2_failed_search_keeps_entry:
  "fst (searchClinicalTrials (\<lambda>r. NoResponse :: string reply) (Some ''cancer'') None None 0 20
          ''searchTrials'' init)
     = Some (Inl (Error ''No response from server. Please check your connection.''))
   \<and> cancelTokens (snd (searchClinicalTrials (\<lambda>r. NoResponse :: string reply) (Some ''cancer'')
          None None 0 20 ''searchTrials'' init)) = [(''searchTrials'', 0)]
   \<and> pending (snd (searchClinicalTrials (\<lambda>r. NoResponse :: string reply) (Some ''cancer'')
          None None 0 20 ''searchTrials'' init)) = []
   \<and> cancelTokens (snd (searchClinicalTrials (\<lambda>r. Success ''trials'') (Some ''cancer'')
          None None 0 20 ''searchTrials'' init)) = []"
  by code_simp

text \<open>
  C3, as the code has it: when the reply to a request of the client has status 401, the
  response interceptor removes the token (\<^verbatim>\<open>getToken\<close> gives nothing afterwards) and, in
  a browser, sets the location to \<^verbatim>\<open>/login\<close>, whatever the request is. The operation that
  awaited the request then fails with an \<^verbatim>\<open>Error\<close> whose message is the \<^verbatim>\<open>detail\<close> of
  the response, else its \<^verbatim>\<open>message\<close>, else \<^verbatim>\<open>Request failed with status 401\<close>; \<^verbatim>\<open>logout\<close>
  resolves normally and \<^verbatim>\<open>isFavorite\<close> answers \<^verbatim>\<open>false\<close> instead. A search operation
  whose awaited request is answered with 401 does the same as the plain operations.
\<close>

theorem C3_unauthorized:
  "(srv (requestInterceptor cfg w) = Failure 401 detail message \<longrightarrow>
      fst (catch (client_request srv cfg w))
        = Inl (Error (if truthy detail then the detail
                      else if truthy message then the message
                      else ''Request failed with status 401''))
      \<and> getToken (snd (catch (client_request srv cfg w))) = None
      \<and> (hasWindow w \<longrightarrow> href (snd (catch (client_request srv cfg w))) = ''/login''))
   \<and> (srvL (requestInterceptor (mkConfig POST ''/api/auth/logout'' [] NoBody) w)
         = Failure 401 detail message \<longrightarrow>
      fst (logout srvL w) = Inr () \<and> getToken (snd (logout srvL w)) = None)
   \<and> (srvF (requestInterceptor
               (mkConfig GET ''/api/favorites'' [(''favorite_type'', JStr itemType)] NoBody) w)
         = Failure 401 detail message \<longrightarrow>
      fst (isFavorite srvF itemId itemType w) = False
      \<and> getToken (snd (isFavorite srvF itemId itemType w)) = None)
   \<and> fst (search_resume cancelKey (Failure 401 detail message :: 's reply) w)
       = Inl (Error (if truthy detail then the detail
                     else if truthy message then the message
                     else ''Request failed with status 401''))
   \<and> getToken (snd (search_resume cancelKey (Failure 401 detail message :: 's reply) w)) = None"
proof (intro conjI impI)
  assume a: "srv (requestInterceptor cfg w) = Failure 401 detail message"
  show "fst (catch (client_request srv cfg w))
        = Inl (Error (if truthy detail then the detail
                      else if truthy message then the message
                      else ''Request failed with status 401''))"
    using a by (simp add: show_nat_401)
  show "getToken (snd (catch (client_request srv cfg w))) = None"
    using a by (simp add: client_request_getToken_401)
  show "href (snd (catch (client_request srv cfg w))) = ''/login''" if "hasWindow w"
    using a that by (simp add: client_request_href_401)
next
  assume a: "srvL (requestInterceptor (mkConfig POST ''/api/auth/logout'' [] NoBody) w)
         = Failure 401 detail message"
  show "fst (logout srvL w) = Inr ()"
    by (simp add: logout_def Let_def split: prod.splits)
  show "getToken (snd (logout srvL w)) = None"
    by (simp add: logout_def Let_def getToken_def removeToken_def split: prod.splits)
next
  let ?cfg = "mkConfig GET ''/api/favorites'' [(''favorite_type'', JStr itemType)] NoBody"
  assume a: "srvF (requestInterceptor ?cfg w) = Failure 401 detail message"
  show "fst (isFavorite srvF itemId itemType w) = False"
    using a by (simp add: isFavorite_fst)
  obtain r w1 where g: "client_request srvF ?cfg w = (r, w1)"
    by (cases "client_request srvF ?cfg w")
  have "getToken w1 = None"
    using client_request_getToken_401 [of srvF ?cfg w detail message] a g by simp
  moreover have "snd (isFavorite srvF itemId itemType w) = w1"
    using g by (cases r) (simp_all add: isFavorite_def getFavorites_def)
  ultimately show "getToken (snd (isFavorite srvF itemId itemType w)) = None"
    by simp
next
  show "fst (search_resume cancelKey (Failure 401 detail message :: 's reply) w)
       = Inl (Error (if truthy detail then the detail
                     else if truthy message then the message
                     else ''Request failed with status 401''))"
    by (simp add: search_resume_fst show_nat_401)
  show "getToken (snd (search_resume cancelKey (Failure 401 detail message :: 's reply) w)) = None"
    by (simp add: search_resume_def getToken_def removeToken_def Let_def)
qed

theorem C3_witness:
  "(\<lambda>r. Failure 401 None None :: User reply)
       (requestInterceptor (mkConfig GET ''/api/auth/me'' [] NoBody) (setToken ''tok'' init))
     = Failure 401 None None
   \<and> hasWindow (setToken ''tok'' init)
   \<and> getToken (setToken ''tok'' init) = Some ''tok''
   \<and> fst (getCurrentUser (\<lambda>r. Failure 401 None None) (setToken ''tok'' init))
       = Inl (Error ''Request failed with status 401'')
   \<and> getToken (snd (getCurrentUser (\<lambda>r. Failure 401 None None) (setToken ''tok'' init))) = None
   \<and> href (snd (getCurrentUser (\<lambda>r. Failure 401 None None) (setToken ''tok'' init))) = ''/login''
   \<and> getToken (snd (logout (\<lambda>r. Failure 401 None None :: unit reply) (setToken ''tok'' init))) = None
   \<and> getToken (snd (isFavorite (\<lambda>r. Failure 401 None None) ''NCT01'' ''trial''
                       (setToken ''tok'' init))) = None
   \<and> getToken (snd (search_resume ''searchTrials'' (Failure 401 None None :: unit reply)
                       (setToken ''tok'' init))) = None"
proof -
  have w: "hasWindow (setToken ''tok'' init)" "getToken (setToken ''tok'' init) = Some ''tok''"
    by (simp_all add: setToken_def getToken_def init_def)
  note t = C3_unauthorized
    [where srv = "\<lambda>r. Failure 401 None None :: User reply"
       and srvL = "\<lambda>r. Failure 401 None None :: unit reply"
       and srvF = "\<lambda>r. Failure 401 None None"
       and cfg = "mkConfig GET ''/api/auth/me'' [] NoBody" and w = "setToken ''tok'' init"
       and detail = None and message = None and itemId = "''NCT01''" and itemType = "''trial''"
       and cancelKey = "''searchTrials''" and ?'s = unit]
  from t w show ?thesis
    by (simp add: getCurrentUser_def del: client_request_fst catch_fst catch_snd)
qed

text \<open>
  The claim as the spec states it fails: the failure that reaches the caller after a 401 is
  the \<^verbatim>\<open>Error\<close> that a response with status 500 and the same body gives, so no
  distinguished condition is surfaced; and \<^verbatim>\<open>isFavorite\<close> and \<^verbatim>\<open>logout\<close> surface no
  failure at all.
\<close>

theorem C3_counterexample:
  "fst (getCurrentUser (\<lambda>r. Failure 401 (Some ''Could not validate credentials'') None)
          (setToken ''tok'' init))
     = Inl (Error ''Could not validate credentials'')
   \<and> fst (getCurrentUser (\<lambda>r. Failure 500 (Some ''Could not validate credentials'') None)
          (setToken ''tok'' init))
     = Inl (Error ''Could not validate credentials'')
   \<and> fst (isFavorite (\<lambda>r. Failure 401 (Some ''Could not validate credentials'') None)
          ''NCT01'' ''trial'' (setToken ''tok'' init)) = False
   \<and> fst (logout (\<lambda>r. Failure 401 (Some ''Could not validate credentials'') None :: unit reply)
          (setToken ''tok'' init)) = Inr ()"
  by (simp add: getCurrentUser_def isFavorite_fst logout_def Let_def split: prod.splits)

text \<open>
  C4, as the code has it: \<^verbatim>\<open>login\<close> checks the format of the email only. An email that
  the regular expression rejects makes \<^verbatim>\<open>login\<close> and \<^verbatim>\<open>register\<close> fail with
  \<^verbatim>\<open>Invalid email format\<close> and leaves the state, with the history of requests, as it
  was; with an email that passes, \<^verbatim>\<open>login\<close> hands its request to the transport whatever
  the password is, and \<^verbatim>\<open>register\<close> fails locally when the password has fewer than 8
  characters.
\<close>

theorem C4_local_validation:
  "(\<not> validateEmail email \<longrightarrow>
      login srv email password w = (Inl (Error ''Invalid email format''), w))
   \<and> (validateEmail email \<longrightarrow>
      sent (snd (login srv email password w))
        = sent w @ [requestInterceptor (loginConfig email password) w])
   \<and> (\<not> validateEmail email \<longrightarrow>
      register srv' email password userType w = (Inl (Error ''Invalid email format''), w))
   \<and> (validateEmail email \<and> length password < 8 \<longrightarrow>
      register srv' email password userType w
        = (Inl (Error ''Password must be at least 8 characters long''), w))"
  by (simp add: login_sent) (simp add: login_def register_def validatePassword_def)

theorem C4_witness:
  "\<not> validateEmail ''a@b''
   \<and> login (\<lambda>r. NoResponse) ''a@b'' ''secret'' init = (Inl (Error ''Invalid email format''), init)
   \<and> register (\<lambda>r. NoResponse) ''a@b'' ''longenough'' ''patient'' init
       = (Inl (Error ''Invalid email format''), init)
   \<and> validateEmail ''a@b.co'' \<and> length ''short'' < 8
   \<and> sent (snd (login (\<lambda>r. NoResponse) ''a@b.co'' ''short'' init))
       = sent init @ [requestInterceptor (loginConfig ''a@b.co'' ''short'') init]
   \<and> register (\<lambda>r. NoResponse) ''a@b.co'' ''short'' ''patient'' init
       = (Inl (Error ''Password must be at least 8 characters long''), init)"
  using C4_local_validation
      [where email = "''a@b''" and password = "''secret''" and w = init
         and srv = "\<lambda>r. NoResponse"]
    C4_local_validation
      [where email = "''a@b''" and password = "''longenough''" and w = init
         and srv' = "\<lambda>r. NoResponse" and userType = "''patient''"]
    C4_local_validation
      [where email = "''a@b.co''" and password = "''short''" and w = init
         and srv = "\<lambda>r. NoResponse" and srv' = "\<lambda>r. NoResponse" and userType = "''patient''"]
    valid_a_b_co invalid_a_b
  by simp

text \<open>
  The claim as the spec states it fails for the password of \<^verbatim>\<open>login\<close>: with a well-formed
  email and the empty password, the request is handed to the transport.
\<close>

theorem C4_counterexample:
  "sent (snd (login (\<lambda>r. Failure 401 (Some ''Incorrect email or password'') None) ''a@b.co'' [] init))
     = [\<lparr>meth = POST, url = ''/api/auth/login'', params = [],
         body = FormData [(''username'', ''a@b.co''), (''password'', [])],
         contentType = ''multipart/form-data'', authorization = None, cancelToken = None\<rparr>]"
  by (simp add: login_sent valid_a_b_co requestInterceptor_def getToken_def init_def
       loginConfig_def mkConfig_def)

text \<open>
  C5: for a triple whose type is in the enumeration, stored at most once before, calling
  \<^verbatim>\<open>add\<close> twice with that triple leaves exactly one stored reference with it; the
  second call changes nothing and answers with the stored reference, the one the first
  call answered with, and \<^verbatim>\<open>addFavorite\<close> returns it as its value.
\<close>

theorem C5_add_twice:
  assumes valid: "favorite_type d \<in> set favorite_types"
    and unique: "length (filter (same_favorite actor (favorite_type d) (favorite_id d)) table) \<le> 1"
    and same: "favorite_type d' = favorite_type d \<and> favorite_id d' = favorite_id d"
    and first: "favorites_add actor d newId now table = (r1, table1)"
    and second: "favorites_add actor d' newId' now' table1 = (r2, table2)"
  shows "table2 = table1
    \<and> length (filter (same_favorite actor (favorite_type d) (favorite_id d)) table2) = 1
    \<and> (\<exists>f. r1 = Success f \<and> r2 = Success f \<and> f \<in> set table2
          \<and> same_favorite actor (favorite_type d) (favorite_id d) f
          \<and> fst (addFavorite (\<lambda>req. r2) d' w) = Inr f)"
proof (cases "find (same_favorite actor (favorite_type d) (favorite_id d)) table")
  case None
  let ?P = "same_favorite actor (favorite_type d) (favorite_id d)"
  let ?f = "\<lparr>favorite_type = favorite_type d, favorite_id = favorite_id d,
             fav_notes = fav_notes d, fav_ident = newId, user_id = actor, created_at = now\<rparr>"
  have Pf: "?P ?f" by (simp add: same_favorite_def)
  have no: "\<not> list_ex (same_favorite (user_id ?f) (favorite_type ?f) (favorite_id ?f)) table"
    using None by (simp add: list_ex_iff find_None_iff)
  have t1: "table1 = table @ [?f]" and r1: "r1 = Success ?f"
    using first valid None no by (simp_all add: favorites_add_def insert_favorite_def Let_def)
  have found: "find ?P table1 = Some ?f"
    using None Pf t1 by (simp add: find_same_favorite_snoc)
  have t2: "table2 = table1" and r2: "r2 = Success ?f"
    using second valid found same by (simp_all add: favorites_add_def)
  have "filter ?P table1 = [?f]"
    using None Pf t1 by (simp add: filter_none)
  then show ?thesis
    using t1 t2 r1 r2 Pf by (simp add: addFavorite_def)
next
  case (Some f)
  let ?P = "same_favorite actor (favorite_type d) (favorite_id d)"
  have t1: "table1 = table" and r1: "r1 = Success f"
    using first valid Some by (simp_all add: favorites_add_def)
  have t2: "table2 = table" and r2: "r2 = Success f"
    using second valid Some t1 same by (simp_all add: favorites_add_def)
  have mem: "f \<in> set (filter ?P table)" using Some by (rule find_Some_filter)
  then have "filter ?P table \<noteq> []" by (metis empty_iff empty_set)
  then have "length (filter ?P table) = 1"
    using unique by (cases "filter ?P table") simp_all
  then show ?thesis
    using t1 t2 r1 r2 mem by (simp add: addFavorite_def)
qed

theorem C5_witness:
  "favorite_type trialFavorite \<in> set favorite_types
   \<and> length (filter (same_favorite 7 ''trial'' ''NCT01'') []) \<le> 1
   \<and> favorites_add 7 trialFavorite 1 ''2024-01-01'' [] = (Success storedFavorite, [storedFavorite])
   \<and> favorites_add 7 trialFavorite 2 ''2024-01-02'' [storedFavorite]
       = (Success storedFavorite, [storedFavorite])
   \<and> length (filter (same_favorite 7 ''trial'' ''NCT01'') [storedFavorite]) = 1
   \<and> fst (addFavorite (\<lambda>req. Success storedFavorite) trialFavorite init) = Inr storedFavorite"
proof -
  have h1: "favorite_type trialFavorite \<in> set favorite_types"
    by (simp add: trialFavorite_def favorite_types_def)
  have h2: "length (filter (same_favorite 7 (favorite_type trialFavorite)
              (favorite_id trialFavorite)) []) \<le> 1" by simp
  have h3: "favorites_add 7 trialFavorite 1 ''2024-01-01'' [] = (Success storedFavorite, [storedFavorite])"
    by (simp add: favorites_add_def insert_favorite_def trialFavorite_def storedFavorite_def
          favorite_types_def Let_def)
  have h4: "favorites_add 7 trialFavorite 2 ''2024-01-02'' [storedFavorite]
       = (Success storedFavorite, [storedFavorite])"
    by (simp add: favorites_add_def insert_favorite_def trialFavorite_def storedFavorite_def
          favorite_types_def same_favorite_def)
  have h0: "favorite_type trialFavorite = favorite_type trialFavorite
      \<and> favorite_id trialFavorite = favorite_id trialFavorite" by simp
  from C5_add_twice [OF h1 h2 h0 h3 h4, of init] h1 h3 h4 show ?thesis
    by (simp add: trialFavorite_def)
qed

text \<open>
  C6: \<^verbatim>\<open>isFavorite\<close> asks for the favorites with the type as \<^verbatim>\<open>favorite_type\<close> parameter;
  its value is whether some favorite of the answer has \<^verbatim>\<open>favorite_id\<close> equal to the item,
  and \<^verbatim>\<open>false\<close> whenever the request fails.
\<close>

theorem C6_isFavorite:
  "fst (isFavorite srv itemId itemType w) =
     (case srv (requestInterceptor
                  (mkConfig GET ''/api/favorites'' [(''favorite_type'', JStr itemType)] NoBody) w) of
        Success favorites \<Rightarrow> itemId \<in> favorite_id ` set favorites
      | Failure status detail message \<Rightarrow> False
      | NoResponse \<Rightarrow> False)"
  by (rule isFavorite_fst)

theorem C6_witness:
  "fst (isFavorite
         (\<lambda>r. Success [\<lparr>favorite_type = ''trial'', favorite_id = ''NCT01'', fav_notes = None,
                          fav_ident = 1, user_id = 2, created_at = ''2024-01-01''\<rparr>])
         ''NCT01'' ''trial'' init)
   \<and> \<not> fst (isFavorite
         (\<lambda>r. Success [\<lparr>favorite_type = ''trial'', favorite_id = ''NCT01'', fav_notes = None,
                          fav_ident = 1, user_id = 2, created_at = ''2024-01-01''\<rparr>])
         ''NCT02'' ''trial'' init)
   \<and> \<not> fst (isFavorite (\<lambda>r. Failure 500 None None) ''NCT01'' ''trial'' init)
   \<and> \<not> fst (isFavorite (\<lambda>r. NoResponse) ''NCT01'' ''trial'' init)"
  by (simp add: C6_isFavorite)

text \<open>
  C7, as the code has it: neither \<^verbatim>\<open>createForumReply\<close> nor \<^verbatim>\<open>createForumPost\<close> reads a
  role. With a content that is not blank, \<^verbatim>\<open>createForumReply\<close> hands its request to the
  transport whoever the \<^verbatim>\<open>user\<close> of the auth store is, and its result is the answer of
  the remote service: the data of a 2xx response, else the \<^verbatim>\<open>Error\<close> that
  \<^verbatim>\<open>handleError\<close> builds from the failure. With a title and a content that are not blank,
  \<^verbatim>\<open>createForumPost\<close> does the same: any actor may post, as far as the client goes.
\<close>

theorem C7_reply_not_gated:
  "((\<exists>c \<in> set content. \<not> isWhiteSpace c) \<longrightarrow>
     sent (snd (createForumReply srv postId content (w\<lparr>authUser := actor\<rparr>)))
       = sent w @ [requestInterceptor (replyConfig postId content) w]
     \<and> fst (createForumReply srv postId content (w\<lparr>authUser := actor\<rparr>))
       = (case srv (requestInterceptor (replyConfig postId content) w) of
            Success d \<Rightarrow> Inr d
          | Failure status detail message \<Rightarrow> Inl (handleError (AxiosResponse status detail message))
          | NoResponse \<Rightarrow> Inl (handleError AxiosNoResponse)))
   \<and> ((\<exists>c \<in> set title. \<not> isWhiteSpace c) \<and> (\<exists>c \<in> set body_text. \<not> isWhiteSpace c) \<longrightarrow>
     sent (snd (createForumPost srvP forumId title body_text (w\<lparr>authUser := actor\<rparr>)))
       = sent w @ [requestInterceptor (postConfig forumId title body_text) w]
     \<and> fst (createForumPost srvP forumId title body_text (w\<lparr>authUser := actor\<rparr>))
       = (case srvP (requestInterceptor (postConfig forumId title body_text) w) of
            Success d \<Rightarrow> Inr d
          | Failure status detail message \<Rightarrow> Inl (handleError (AxiosResponse status detail message))
          | NoResponse \<Rightarrow> Inl (handleError AxiosNoResponse)))"
proof (intro conjI impI)
  assume a: "\<exists>c \<in> set content. \<not> isWhiteSpace c"
  show "sent (snd (createForumReply srv postId content (w\<lparr>authUser := actor\<rparr>)))
       = sent w @ [requestInterceptor (replyConfig postId content) w]"
    using a by (auto simp: createForumReply_def trim_empty_iff replyConfig_def)
  show "fst (createForumReply srv postId content (w\<lparr>authUser := actor\<rparr>))
       = (case srv (requestInterceptor (replyConfig postId content) w) of
            Success d \<Rightarrow> Inr d
          | Failure status detail message \<Rightarrow> Inl (handleError (AxiosResponse status detail message))
          | NoResponse \<Rightarrow> Inl (handleError AxiosNoResponse))"
    using a by (cases "srv (requestInterceptor (replyConfig postId content) w)")
      (auto simp: createForumReply_def trim_empty_iff replyConfig_def simp del: handleError.simps)
next
  assume a: "(\<exists>c \<in> set title. \<not> isWhiteSpace c) \<and> (\<exists>c \<in> set body_text. \<not> isWhiteSpace c)"
  show "sent (snd (createForumPost srvP forumId title body_text (w\<lparr>authUser := actor\<rparr>)))
       = sent w @ [requestInterceptor (postConfig forumId title body_text) w]"
    using a by (auto simp: createForumPost_def trim_empty_iff postConfig_def)
  show "fst (createForumPost srvP forumId title body_text (w\<lparr>authUser := actor\<rparr>))
       = (case srvP (requestInterceptor (postConfig forumId title body_text) w) of
            Success d \<Rightarrow> Inr d
          | Failure status detail message \<Rightarrow> Inl (handleError (AxiosResponse status detail message))
          | NoResponse \<Rightarrow> Inl (handleError AxiosNoResponse))"
    using a by (cases "srvP (requestInterceptor (postConfig forumId title body_text) w)")
      (auto simp: createForumPost_def trim_empty_iff postConfig_def simp del: handleError.simps)
qed

theorem C7_witness:
  "\<not> isWhiteSpace CHR ''h'' \<and> \<not> isWhiteSpace CHR ''t''
   \<and> sent (snd (createForumReply (\<lambda>r. Success (1::nat)) 5 ''h'' (init\<lparr>authUser := Some patient\<rparr>)))
       = sent init @ [requestInterceptor (replyConfig 5 ''h'') init]
   \<and> fst (createForumReply (\<lambda>r. Success (1::nat)) 5 ''h'' (init\<lparr>authUser := Some patient\<rparr>))
       = Inr 1
   \<and> sent (snd (createForumPost (\<lambda>r. Success (2::nat)) 3 ''t'' ''h'' (init\<lparr>authUser := Some patient\<rparr>)))
       = sent init @ [requestInterceptor (postConfig 3 ''t'' ''h'') init]
   \<and> fst (createForumPost (\<lambda>r. Success (2::nat)) 3 ''t'' ''h'' (init\<lparr>authUser := Some patient\<rparr>))
       = Inr 2"
  using C7_reply_not_gated
    [where content = "''h''" and srv = "\<lambda>r. Success (1::nat)" and postId = 5 and w = init
       and actor = "Some patient" and title = "''t''" and body_text = "''h''"
       and srvP = "\<lambda>r. Success (2::nat)" and forumId = 3]
  by (simp add: isWhiteSpace_def)

text \<open>
  The claim as the spec states it fails: no permission predicate is evaluated before the
  call is submitted. The reply of an actor with the role \<^verbatim>\<open>patient\<close> is handed to the
  transport, and the refusal of the remote service comes back as a plain \<^verbatim>\<open>Error\<close>.
\<close>

theorem C7_counterexample:
  "sent (snd (createForumReply (\<lambda>r. Failure 403 (Some ''Only researchers can reply'') None) 5 ''hello''
            (init\<lparr>authToken := Some ''tok'', authUser := Some patient\<rparr>)))
     = [\<lparr>meth = POST, url = ''/api/forums/replies'', params = [],
         body = Json (JObj [(''post_id'', JNum 5), (''content'', JStr ''hello'')]),
         contentType = ''application/json'', authorization = Some ''Bearer tok'',
         cancelToken = None\<rparr>]
   \<and> fst (createForumReply (\<lambda>r. Failure 403 (Some ''Only researchers can reply'') None) 5 ''hello''
            (init\<lparr>authToken := Some ''tok'', authUser := Some patient\<rparr>))
     = Inl (Error ''Only researchers can reply'')"
  by (simp add: createForumReply_def trim_def isWhiteSpace_def requestInterceptor_def
       getToken_def init_def mkConfig_def)

text \<open>
  C8: a status transition of a meeting request whose status is \<^verbatim>\<open>approved\<close> or
  \<^verbatim>\<open>rejected\<close> fails with \<^verbatim>\<open>InvalidTransition\<close> and leaves the table as it was; and a
  transition that succeeds started from \<^verbatim>\<open>pending\<close> and went to \<^verbatim>\<open>approved\<close> or
  \<^verbatim>\<open>rejected\<close>. The client checks nothing itself: \<^verbatim>\<open>updateMeetingRequestStatus\<close> hands
  the status it is given to the remote service.
\<close>

theorem C8_terminal_states_absorb:
  "(find (\<lambda>m. mr_ident m = requestId) table = Some m
      \<and> (mr_status m = ''approved'' \<or> mr_status m = ''rejected'') \<longrightarrow>
      meeting_update_status permitted actor requestId target table = (Inl InvalidTransition, table))
   \<and> (find (\<lambda>m. mr_ident m = requestId) table = Some m
      \<and> meeting_update_status permitted actor requestId target table = (Inr m', table') \<longrightarrow>
      mr_status m = ''pending'' \<and> (target = ''approved'' \<or> target = ''rejected'')
      \<and> mr_status m' = target)
   \<and> sent (snd (updateMeetingRequestStatus srv requestId target w))
       = sent w @ [requestInterceptor
                     (mkConfig PUT (''/api/meeting-requests/'' @ show_int requestId) []
                        (Json (JObj [(''status'', JStr target)]))) w]"
proof (intro conjI impI)
  assume "find (\<lambda>m. mr_ident m = requestId) table = Some m
      \<and> (mr_status m = ''approved'' \<or> mr_status m = ''rejected'')"
  then show "meeting_update_status permitted actor requestId target table
               = (Inl InvalidTransition, table)"
    by (auto simp: meeting_update_status_def meeting_transition_def)
next
  assume a: "find (\<lambda>m. mr_ident m = requestId) table = Some m
      \<and> meeting_update_status permitted actor requestId target table = (Inr m', table')"
  then show "mr_status m = ''pending''" and "target = ''approved'' \<or> target = ''rejected''"
    and "mr_status m' = target"
    by (auto simp: meeting_update_status_def meeting_transition_def split: if_splits)
next
  show "sent (snd (updateMeetingRequestStatus srv requestId target w))
       = sent w @ [requestInterceptor
                     (mkConfig PUT (''/api/meeting-requests/'' @ show_int requestId) []
                        (Json (JObj [(''status'', JStr target)]))) w]"
    by (simp add: updateMeetingRequestStatus_def)
qed

theorem C8_witness:
  "find (\<lambda>m. mr_ident m = 4) [approvedRequest] = Some approvedRequest
   \<and> mr_status approvedRequest = ''approved''
   \<and> meeting_update_status (\<lambda>a e. True) 9 4 ''rejected'' [approvedRequest]
       = (Inl InvalidTransition, [approvedRequest])
   \<and> meeting_update_status (\<lambda>a e. True) 9 4 ''rejected''
         [approvedRequest\<lparr>mr_status := ''pending''\<rparr>]
       = (Inr (approvedRequest\<lparr>mr_status := ''rejected''\<rparr>),
          [approvedRequest\<lparr>mr_status := ''rejected''\<rparr>])"
proof -
  have h1: "find (\<lambda>m. mr_ident m = 4) [approvedRequest] = Some approvedRequest"
    by (simp add: approvedRequest_def)
  have h2: "mr_status approvedRequest = ''approved''" by (simp add: approvedRequest_def)
  have h3: "meeting_update_status (\<lambda>a e. True) 9 4 ''rejected''
         [approvedRequest\<lparr>mr_status := ''pending''\<rparr>]
       = (Inr (approvedRequest\<lparr>mr_status := ''rejected''\<rparr>),
          [approvedRequest\<lparr>mr_status := ''rejected''\<rparr>])"
    by (simp add: meeting_update_status_def meeting_transition_def approvedRequest_def)
  from C8_terminal_states_absorb
    [where requestId = 4 and table = "[approvedRequest]" and m = approvedRequest
       and permitted = "\<lambda>a e. True" and actor = 9 and target = "''rejected''"
       and m' = approvedRequest and table' = "[]" and w = init
       and srv = "\<lambda>r. NoResponse :: MeetingRequest reply"]
    h1 h2 h3
  show ?thesis by simp
qed

text \<open>
  C9: creating a connection request for an ordered pair (requester, receiver) of which a
  record is stored, whatever its status, fails with \<^verbatim>\<open>DuplicateRelationship\<close> and leaves
  the table, and so the stored record, as it was.
\<close>

theorem C9_duplicate_connection:
  "c \<in> set table \<and> conn_requester_id c = requester \<and> receiver_id c = receiver \<longrightarrow>
     connection_create requester receiver newId table = (Inl DuplicateRelationship, table)"
  by (auto simp: connection_create_def insert_connection_def same_pair_def list_ex_iff Let_def)

theorem C9_witness:
  "rejectedConnection \<in> set [rejectedConnection]
   \<and> conn_requester_id rejectedConnection = 11 \<and> receiver_id rejectedConnection = 12
   \<and> conn_status rejectedConnection = ''rejected''
   \<and> connection_create 11 12 2 [rejectedConnection] = (Inl DuplicateRelationship, [rejectedConnection])"
  using C9_duplicate_connection
    [where c = rejectedConnection and table = "[rejectedConnection]" and requester = 11
       and receiver = 12 and newId = 2]
  by (simp add: rejectedConnection_def)

text \<open>
  C10: \<^verbatim>\<open>createForumPost\<close> with a title or a content that is empty or holds white space
  only fails with the \<^verbatim>\<open>Error\<close> of its local check and leaves the state of the client,
  with the history of requests handed to the transport, as it was; \<^verbatim>\<open>createForumReply\<close>
  does the same for its content. No request is issued.
\<close>

theorem C10_blank_post_or_reply_fails_locally:
  "((\<forall>c \<in> set title. isWhiteSpace c) \<longrightarrow>
      createForumPost srv forumId title content w = (Inl (Error ''Post title cannot be empty''), w))
   \<and> ((\<forall>c \<in> set content. isWhiteSpace c) \<longrightarrow>
      (\<exists>msg. createForumPost srv forumId title content w = (Inl (Error msg), w)))
   \<and> ((\<forall>c \<in> set content. isWhiteSpace c) \<longrightarrow>
      createForumReply srv' postId content w = (Inl (Error ''Reply content cannot be empty''), w))"
  by (simp add: createForumPost_def createForumReply_def trim_empty_iff)

theorem C10_witness:
  "isWhiteSpace (CHR 0x20) \<and> isWhiteSpace (CHR 0x09) \<and> isWhiteSpace (CHR 0x0A)
   \<and> createForumPost (\<lambda>r. Success (1::nat)) 7 [CHR 0x20, CHR 0x09] [CHR 0x0A] init
       = (Inl (Error ''Post title cannot be empty''), init)
   \<and> createForumReply (\<lambda>r. Success (1::nat)) 3 [CHR 0x0A] init
       = (Inl (Error ''Reply content cannot be empty''), init)"
  using C10_blank_post_or_reply_fails_locally
    [where title = "[CHR 0x20, CHR 0x09]" and content = "[CHR 0x0A]" and w = init
       and srv = "\<lambda>r. Success (1::nat)" and srv' = "\<lambda>r. Success (1::nat)"
       and forumId = 7 and postId = 3]
  by (simp add: isWhiteSpace_def)

end
